theory Spec2Isabelle
  imports Main "HOL-Library.Sublist" "HOL-Library.Word"
begin

chapter \<open>The program: definitions translated from hapi.js and extensions.js\<close>

section \<open>Array helpers of the JavaScript runtime and of extensions.js\<close>

text \<open>\<^verbatim>\<open>Array.prototype.addUniq\<close>: push the value unless it is already present.\<close>

definition addUniq :: "'a list \<Rightarrow> 'a \<Rightarrow> 'a list" where
  "addUniq xs v = (if v \<in> set xs then xs else xs @ [v])"

text \<open>\<^verbatim>\<open>Array.prototype.addAllUniq\<close>: \<^verbatim>\<open>addUniq\<close> of every element of the other array, in order.\<close>

definition addAllUniq :: "'a list \<Rightarrow> 'a list \<Rightarrow> 'a list" where
  "addAllUniq xs others = foldl addUniq xs others"

text \<open>\<^verbatim>\<open>Array.prototype.pullAll\<close> (lodash \<^verbatim>\<open>_.pullAll\<close>): remove every occurrence of the given values.\<close>

definition pullAll :: "'a list \<Rightarrow> 'a list \<Rightarrow> 'a list" where
  "pullAll xs others = filter (\<lambda>x. x \<notin> set others) xs"

text \<open>
  \<^verbatim>\<open>Array.prototype.indexOf\<close>: the position of the first element strictly equal to the
  value, or -1. \<^verbatim>\<open>indexOf_from\<close> carries the position of the head of the remaining list.
\<close>

fun indexOf_from :: "int \<Rightarrow> 'a list \<Rightarrow> 'a \<Rightarrow> int" where
  "indexOf_from i [] v = -1"
| "indexOf_from i (x # xs) v = (if x = v then i else indexOf_from (i + 1) xs v)"

definition indexOf :: "'a list \<Rightarrow> 'a \<Rightarrow> int" where
  "indexOf xs v = indexOf_from 0 xs v"

text \<open>A number used as a condition is true unless it is zero.\<close>

definition truthy_number :: "int \<Rightarrow> bool" where
  "truthy_number n = (n \<noteq> 0)"

section \<open>Hapi.prototype.isInsertableApi (hapi.js 293-302)\<close>

text \<open>
  The loop over \<^verbatim>\<open>this.referencedApis\<close>: the API is rejected as soon as
  \<^verbatim>\<open>name.startsWith(refs[i])\<close>, that is, as soon as a referenced name is a prefix of
  the API's name.
\<close>

fun isInsertableApi :: "string list \<Rightarrow> string \<Rightarrow> bool" where
  "isInsertableApi [] name = True"
| "isInsertableApi (r # refs) name = (if prefix r name then False else isInsertableApi refs name)"

section \<open>Hapi.prototype.gendoc and VirtualHost.prototype.gendoc (hapi.js 193-216, 359-388)\<close>

text \<open>
  What documentation generation reads of a MultiResponseApi: its name, the \<^verbatim>\<open>private\<close>
  flag, the normalised path and lower-cased method under which \<^verbatim>\<open>addDoc\<close> files it, and
  the error (if any) that \<^verbatim>\<open>getParameters\<close> or the schema translation raises for it.
\<close>

record mapi_doc =
  md_name :: string
  md_private :: bool
  md_path :: string
  md_method :: string
  md_failure :: "string option"

record vhost =
  vh_name :: string
  vh_swagger :: bool
  vh_mapis :: "mapi_doc list"

text \<open>
  \<^verbatim>\<open>MultiResponseApi.prototype.addDoc\<close>: the state maps a (path, method) pair to the name of
  the API documented there. A second API on the same pair throws; otherwise the pair is
  taken (\<^verbatim>\<open>doc[method]\<close> is assigned first), and the parameters and response schemas
  are computed, which may throw. The result is the state and the error thrown, if any.
\<close>

definition addDoc :: "mapi_doc \<Rightarrow> ((string \<times> string) \<times> string) list
    \<Rightarrow> ((string \<times> string) \<times> string) list \<times> string option" where
  "addDoc m state =
     (case map_of state (md_path m, md_method m) of
        Some name1 \<Rightarrow> (state, Some (''multiple definitions for method '' @ md_method m @ '' of ''
                           @ md_path m @ ''; '' @ name1 @ '' and '' @ md_name m))
      | None \<Rightarrow> (state @ [((md_path m, md_method m), md_name m)], md_failure m))"

text \<open>
  The loop of \<^verbatim>\<open>VirtualHost.prototype.gendoc\<close> over the host's APIs: a failure of
  \<^verbatim>\<open>addDoc\<close> is caught and pushed onto the shared \<^verbatim>\<open>hapi.errors\<close>. An exception is
  an Error object and is given by its message; \<^verbatim>\<open>err.toString()\<close> puts \<^verbatim>\<open>Error: \<close> before
  the message. (The logger is taken not to be at trace level, where the stack is
  printed instead.)
\<close>

fun vhost_mapis_loop :: "mapi_doc list \<Rightarrow> ((string \<times> string) \<times> string) list \<Rightarrow> string list
    \<Rightarrow> string list" where
  "vhost_mapis_loop [] state errors = errors"
| "vhost_mapis_loop (m # ms) state errors =
     (if md_private m then vhost_mapis_loop ms state errors
      else (case addDoc m state of
              (state', None) \<Rightarrow> vhost_mapis_loop ms state' errors
            | (state', Some errStr) \<Rightarrow>
                vhost_mapis_loop ms state'
                  (errors @ [''Failure in '' @ md_name m @ '': Error: '' @ errStr])))"

text \<open>
  \<^verbatim>\<open>VirtualHost.prototype.gendoc\<close> throws when the host has no swagger header; otherwise it
  returns the document, having pushed the failures of its APIs onto \<^verbatim>\<open>hapi.errors\<close>.
  The result is the message of the Error thrown, or the errors. \<open>vh_name\<close> is
  \<^verbatim>\<open>info.name\<close>, which \<^verbatim>\<open>getName()\<close> returns when the host has one.
\<close>

definition VirtualHost_gendoc :: "vhost \<Rightarrow> string list \<Rightarrow> string + string list" where
  "VirtualHost_gendoc v errors =
     (if \<not> vh_swagger v then Inl (''no swagger info found for virtual host '' @ vh_name v)
      else Inr (vhost_mapis_loop (vh_mapis v) [] errors))"

text \<open>
  The loop of \<^verbatim>\<open>Hapi.prototype.gendoc\<close> over the virtual hosts, threading
  \<^verbatim>\<open>self.errors\<close> and \<^verbatim>\<open>result\<close>. The predicate \<open>writable\<close> says whether
  \<^verbatim>\<open>fs.writeFileSync\<close> succeeds on a file name. Both a throwing
  \<^verbatim>\<open>vhost.gendoc()\<close> and a failing write land in the \<^verbatim>\<open>catch\<close>, which pushes an error and
  sets \<^verbatim>\<open>result = 2\<close>. \<^verbatim>\<open>util.format\<close> renders the Error caught as \<^verbatim>\<open>Error: \<close> and its
  message; the message of the system error of a failed write is stood for by
  \<^verbatim>\<open>write failed\<close>.
\<close>

fun gendoc_loop :: "(string \<Rightarrow> bool) \<Rightarrow> string \<Rightarrow> vhost list \<Rightarrow> string list \<Rightarrow> int
    \<Rightarrow> string list \<times> int" where
  "gendoc_loop writable outDir [] errors result = (errors, result)"
| "gendoc_loop writable outDir (v # vs) errors result =
     (case VirtualHost_gendoc v errors of
        Inl err \<Rightarrow>
          gendoc_loop writable outDir vs
            (errors @ [''failure generating '' @ vh_name v
                       @ '' virtual host documentation: Error: '' @ err]) 2
      | Inr errors' \<Rightarrow>
          (if writable (outDir @ ''/swagger-'' @ vh_name v @ ''.json'')
           then gendoc_loop writable outDir vs errors' result
           else gendoc_loop writable outDir vs
                  (errors' @ [''failure generating '' @ vh_name v
                              @ '' virtual host documentation: Error: write failed'']) 2))"

text \<open>
  \<^verbatim>\<open>Hapi.prototype.gendoc\<close>: after the loop, a non-empty \<^verbatim>\<open>self.errors\<close> sets
  \<^verbatim>\<open>result = 3\<close>. The function returns the exit code; the model also returns the errors.
\<close>

definition gendoc :: "(string \<Rightarrow> bool) \<Rightarrow> string \<Rightarrow> vhost list \<Rightarrow> string list \<Rightarrow> int \<times> string list" where
  "gendoc writable outDir virtualHosts errors0 =
     (let (errors, result) = gendoc_loop writable outDir virtualHosts errors0 0
      in (if errors \<noteq> [] then 3 else result, errors))"

section \<open>Hook chains: RunContext.prototype.runHook2 (hapi.js 1170-1233)\<close>

text \<open>
  A hook of a chain, after \<^verbatim>\<open>runHook2\<close> has wrapped it into an object. The function of
  the hook is either user code or, for a string, the closure of lines 1205-1218 that
  runs the named API in a fresh RunContext. Of user code the model keeps what the chain
  can observe: whether it calls \<^verbatim>\<open>ctx.setBreak(true)\<close> and whether it passes an error to
  its callback. Of the run of a named API it keeps the error that \<^verbatim>\<open>runCtx.run\<close> passes
  to its callback and \<^verbatim>\<open>runCtx.statusCode\<close>, which \<^verbatim>\<open>handleResponse\<close> sets only when the
  status code received differs from the expected one (\<open>None\<close> is \<^verbatim>\<open>undefined\<close>).

  The chains modelled here are those in which every hook calls the callback of its run:
  \<open>UserFn\<close> is user code that calls its callback before it returns, and \<open>ApiHook\<close> is
  the first run of a hook that names an API of the corpus. The runs in which
  \<^verbatim>\<open>runHook2\<close> throws or leaves the callback uncalled (a hook object that is malformed or
  names no API, user code that reports an error after it has returned, a second run of
  a hook object whose \<^verbatim>\<open>hook\<close> field the first run has replaced by its closure) are the
  outcome \<open>Abandons\<close> of a stage of the waterfall below.
\<close>

datatype 'e hook_fn =
    UserFn bool "'e option"
  | ApiHook "'e option" "int option"

record 'e hook_obj =
  hook :: "'e hook_fn"
  quit :: "int list option"

record hook_ctx =
  break :: bool
  ignore :: bool

text \<open>Lines 1200-1202: a hook without a \<^verbatim>\<open>quit\<close> field gets \<^verbatim>\<open>[404]\<close> or \<^verbatim>\<open>[]\<close>.\<close>

definition default_quit :: "hook_ctx \<Rightarrow> 'e hook_obj \<Rightarrow> int list" where
  "default_quit ctx h = (case quit h of Some q \<Rightarrow> q | None \<Rightarrow> if ignore ctx then [404] else [])"

text \<open>
  \<^verbatim>\<open>hook.quit.indexOf(runCtx.statusCode)\<close>: \<^verbatim>\<open>undefined\<close> is in no list of numbers.
\<close>

definition quit_indexOf :: "int list \<Rightarrow> int option \<Rightarrow> int" where
  "quit_indexOf q statusCode = (case statusCode of None \<Rightarrow> -1 | Some c \<Rightarrow> indexOf q c)"

text \<open>
  One hook that is not an array (lines 1195-1231): the result is the context and the
  argument passed to \<^verbatim>\<open>cb\<close>. For a named API the callback of \<^verbatim>\<open>runCtx.run\<close> (lines
  1209-1217) tests \<^verbatim>\<open>if (hook.quit.indexOf(runCtx.statusCode))\<close>. For user code that calls
  its callback before it returns, an error passed to the callback is thrown inside the
  \<^verbatim>\<open>try\<close> and the \<^verbatim>\<open>catch\<close> calls \<^verbatim>\<open>cb(ctx.fatal ? ex : null)\<close>; a HookContext has no \<^verbatim>\<open>fatal\<close>
  field, so the chain goes on without an error.
\<close>

definition runHook2_single :: "hook_ctx \<Rightarrow> 'e hook_obj \<Rightarrow> hook_ctx \<times> 'e option" where
  "runHook2_single ctx h =
     (let q = default_quit ctx h in
      case hook h of
        ApiHook err statusCode \<Rightarrow>
          (case err of
             None \<Rightarrow> (ctx, None)
           | Some e \<Rightarrow>
               if truthy_number (quit_indexOf q statusCode)
               then (ctx\<lparr>break := True\<rparr>, None)
               else (ctx, Some e))
      | UserFn sets_break err \<Rightarrow>
          (if sets_break then ctx\<lparr>break := True\<rparr> else ctx, None))"

text \<open>
  An array of hooks (lines 1179-1193), from index \<open>idx\<close>: \<^verbatim>\<open>ctx.ignore\<close> is set for every
  hook but the last; an error ends the chain with the error, a break ends it without
  one. The result also lists the indices of the hooks that ran.
\<close>

function runHook2_array :: "'e hook_obj list \<Rightarrow> nat \<Rightarrow> hook_ctx \<Rightarrow> nat list \<times> 'e option" where
  "runHook2_array hooks idx ctx =
     (if idx \<ge> length hooks then ([], None)
      else
        let ctx1 = ctx\<lparr>ignore := (idx < length hooks - 1)\<rparr>;
            (ctx2, err) = runHook2_single ctx1 (hooks ! idx)
        in (case err of
              Some e \<Rightarrow> ([idx], Some e)
            | None \<Rightarrow>
                if break ctx2 then ([idx], None)
                else (let (ran, r) = runHook2_array hooks (idx + 1) ctx2 in (idx # ran, r))))"
  by pat_completeness auto
termination
  by (relation "measure (\<lambda>(hooks, idx, ctx). length hooks - idx)") auto

text \<open>\<^verbatim>\<open>runHook\<close> starts the chain with a fresh HookContext (\<^verbatim>\<open>break = false\<close>).\<close>

definition runHook :: "'e hook_obj list \<Rightarrow> nat list \<times> 'e option" where
  "runHook hooks = runHook2_array hooks 0 \<lparr>break = False, ignore = False\<rparr>"

section \<open>The execution waterfall of RunContext.prototype.doRun (hapi.js 1262-1370)\<close>

text \<open>The nine stages, in the order of the array given to \<^verbatim>\<open>async.waterfall\<close>.\<close>

datatype stage = PreRun | OnBeforeRun | Before | Main | AfterApi | Children | AfterAll
  | OnAfterRun | PostRun

text \<open>
  The variables of the closure: \<^verbatim>\<open>state\<close>, \<^verbatim>\<open>cbErr\<close>, and (for the properties) the stages
  whose operation was invoked, in order.
\<close>

record 'e wf_state =
  state :: nat
  cbErr :: "'e option"
  ran :: "stage list"

text \<open>
  The outcome of the operation of a stage (\<^verbatim>\<open>ctx.run\<close>, \<^verbatim>\<open>doHook\<close>, \<^verbatim>\<open>runHook\<close>,
  \<^verbatim>\<open>sendRequest\<close>, \<^verbatim>\<open>runChildren\<close>). Either it calls the callback it was given, with an
  error or without one (\<open>Calls\<close>), or it does not (\<open>Abandons\<close>): it throws, or it
  returns and the callback of this run is never called. \<^verbatim>\<open>runHook2\<close> does so when a hook
  object has no \<^verbatim>\<open>hook\<close> field (line 1198), when a string hook names an API that
  \<^verbatim>\<open>findApi\<close> does not find (line 1204), when the \<^verbatim>\<open>hook\<close> field is neither a string nor
  a function (line 1220), all three outside any \<^verbatim>\<open>try\<close>; when user code passes an error
  to its callback after it has returned, which line 1225 throws with no handler on the
  stack; and when a hook object that named an API is run again, its \<^verbatim>\<open>hook\<close> field then
  being the closure of line 1205 over the callback of the first run. The outcome is
  consulted only when the stage invokes its operation.
\<close>

datatype 'e outcome = Calls "'e option" | Abandons

text \<open>
  A function of the waterfall takes the variables of the closure to \<open>Inr\<close> of their
  new values when it calls \<^verbatim>\<open>cb()\<close>, and to \<open>Inl\<close> of them when it does not.

  Stages 1 to 6 share one callback: \<^verbatim>\<open>if (!err) state = n; else if (!cbErr) cbErr = err\<close>,
  then \<^verbatim>\<open>cb()\<close>.
\<close>

definition advance :: "nat \<Rightarrow> stage \<Rightarrow> (stage \<Rightarrow> 'e outcome) \<Rightarrow> 'e wf_state
    \<Rightarrow> 'e wf_state + 'e wf_state" where
  "advance n s out w =
     (case out s of
        Calls None \<Rightarrow> Inr (w\<lparr>state := n, ran := ran w @ [s]\<rparr>)
      | Calls (Some err) \<Rightarrow>
          Inr (w\<lparr>cbErr := (if cbErr w = None then Some err else cbErr w), ran := ran w @ [s]\<rparr>)
      | Abandons \<Rightarrow> Inl (w\<lparr>ran := ran w @ [s]\<rparr>))"

text \<open>Stages 7 to 9 only remember the error: \<^verbatim>\<open>if (!cbErr) cbErr = err\<close>, then \<^verbatim>\<open>cb()\<close>.\<close>

definition remember :: "stage \<Rightarrow> (stage \<Rightarrow> 'e outcome) \<Rightarrow> 'e wf_state \<Rightarrow> 'e wf_state + 'e wf_state" where
  "remember s out w =
     (case out s of
        Calls err \<Rightarrow> Inr (w\<lparr>cbErr := (if cbErr w = None then err else cbErr w), ran := ran w @ [s]\<rparr>)
      | Abandons \<Rightarrow> Inl (w\<lparr>ran := ran w @ [s]\<rparr>))"

definition stage_preRun :: "bool \<Rightarrow> (stage \<Rightarrow> 'e outcome) \<Rightarrow> 'e wf_state \<Rightarrow> 'e wf_state + 'e wf_state" where
  "stage_preRun has_preRun out w =
     (if \<not> has_preRun then Inr (w\<lparr>state := 1\<rparr>) else advance 1 PreRun out w)"

definition stage_onBeforeRun :: "(stage \<Rightarrow> 'e outcome) \<Rightarrow> 'e wf_state \<Rightarrow> 'e wf_state + 'e wf_state" where
  "stage_onBeforeRun out w = (if state w < 1 then Inr w else advance 2 OnBeforeRun out w)"

definition stage_before :: "(stage \<Rightarrow> 'e outcome) \<Rightarrow> 'e wf_state \<Rightarrow> 'e wf_state + 'e wf_state" where
  "stage_before out w = (if state w < 2 then Inr w else advance 3 Before out w)"

definition stage_main :: "(stage \<Rightarrow> 'e outcome) \<Rightarrow> 'e wf_state \<Rightarrow> 'e wf_state + 'e wf_state" where
  "stage_main out w = (if state w < 3 then Inr w else advance 4 Main out w)"

definition stage_afterApi :: "(stage \<Rightarrow> 'e outcome) \<Rightarrow> 'e wf_state \<Rightarrow> 'e wf_state + 'e wf_state" where
  "stage_afterApi out w = (if state w < 4 then Inr w else advance 5 AfterApi out w)"

definition stage_children :: "(stage \<Rightarrow> 'e outcome) \<Rightarrow> 'e wf_state \<Rightarrow> 'e wf_state + 'e wf_state" where
  "stage_children out w = (if state w < 5 then Inr w else advance 6 Children out w)"

definition stage_afterAll :: "(stage \<Rightarrow> 'e outcome) \<Rightarrow> 'e wf_state \<Rightarrow> 'e wf_state + 'e wf_state" where
  "stage_afterAll out w = (if state w < 5 then Inr w else remember AfterAll out w)"

definition stage_onAfterRun :: "(stage \<Rightarrow> 'e outcome) \<Rightarrow> 'e wf_state \<Rightarrow> 'e wf_state + 'e wf_state" where
  "stage_onAfterRun out w = (if state w < 2 then Inr w else remember OnAfterRun out w)"

definition stage_postRun :: "bool \<Rightarrow> (stage \<Rightarrow> 'e outcome) \<Rightarrow> 'e wf_state \<Rightarrow> 'e wf_state + 'e wf_state" where
  "stage_postRun has_postRun out w =
     (if \<not> has_postRun \<or> state w < 3 then Inr w else remember PostRun out w)"

text \<open>
  \<^verbatim>\<open>async.waterfall\<close> on functions that pass no error on: the next function is called
  when, and only when, the one before it calls its \<^verbatim>\<open>cb\<close>.
\<close>

fun waterfall :: "('s \<Rightarrow> 's + 's) list \<Rightarrow> 's \<Rightarrow> 's + 's" where
  "waterfall [] w = Inr w"
| "waterfall (f # fs) w = (case f w of Inl w' \<Rightarrow> Inl w' | Inr w' \<Rightarrow> waterfall fs w')"

text \<open>
  The waterfall of \<^verbatim>\<open>doRun\<close>. The two flags say whether the node has a \<^verbatim>\<open>preRun\<close> and a
  \<^verbatim>\<open>postRun\<close> subtree. After the nine stages the last function (lines 1354-1369) passes
  \<^verbatim>\<open>cbErr\<close> to the callback of \<^verbatim>\<open>doRun\<close>: the result \<open>Inr w\<close> says that the callback is called,
  with \<open>cbErr w\<close>; \<open>Inl w\<close> says that a stage abandoned the waterfall, so that no later
  stage runs and the callback is not called.
\<close>

definition doRun_waterfall :: "bool \<Rightarrow> bool \<Rightarrow> (stage \<Rightarrow> 'e outcome) \<Rightarrow> 'e wf_state + 'e wf_state" where
  "doRun_waterfall has_preRun has_postRun out =
     waterfall
       [stage_preRun has_preRun out, stage_onBeforeRun out, stage_before out, stage_main out,
        stage_afterApi out, stage_children out, stage_afterAll out, stage_onAfterRun out,
        stage_postRun has_postRun out]
       \<lparr>state = 0, cbErr = None, ran = []\<rparr>"

text \<open>The variables of the closure when the waterfall has ended or has been abandoned.\<close>

definition closure_of :: "'s + 's \<Rightarrow> 's" where
  "closure_of r = (case r of Inl w \<Rightarrow> w | Inr w \<Rightarrow> w)"

text \<open>A stage succeeded when its operation was invoked and called back without an error.\<close>

definition succeeded :: "(stage \<Rightarrow> 'e outcome) \<Rightarrow> 'e wf_state \<Rightarrow> stage \<Rightarrow> bool" where
  "succeeded out w s = (s \<in> set (ran w) \<and> out s = Calls None)"

text \<open>The error of the first stage, in execution order, that passed one.\<close>

definition failed :: "'e outcome \<Rightarrow> bool" where
  "failed oc = (case oc of Calls (Some err) \<Rightarrow> True | Calls None \<Rightarrow> False | Abandons \<Rightarrow> False)"

definition first_error :: "(stage \<Rightarrow> 'e outcome) \<Rightarrow> stage list \<Rightarrow> 'e option" where
  "first_error out stages =
     (case filter (\<lambda>s. failed (out s)) stages of
        [] \<Rightarrow> None
      | s # _ \<Rightarrow> (case out s of Calls err \<Rightarrow> err | Abandons \<Rightarrow> None))"

section \<open>Values and variable references\<close>

text \<open>
  The values the program handles are JSON trees. A number is one of the integers from
  \<open>- 2^53\<close> to \<open>2^53 - 1\<close>, which a JavaScript number holds exactly and \<^verbatim>\<open>String\<close> prints
  in decimal digits; fractions and larger numbers are not modelled. An object is an
  association list of its own properties, with distinct keys, in the order in which
  the properties are enumerated (the order of insertion, for keys that are not array
  indices).

  \<^verbatim>\<open>obj[key] = val\<close> on an object created by \<^verbatim>\<open>{}\<close> replaces the value of a key already
  present and appends a new key otherwise. The key \<^verbatim>\<open>__proto__\<close> is the accessor
  inherited from \<^verbatim>\<open>Object.prototype\<close>: the assignment creates no property (what it does
  to the prototype of the object is not modelled).
\<close>

datatype json =
    JNull
  | JBool bool
  | JNum "54 word"
  | JStr string
  | JArr "json list"
  | JObj "(string \<times> json) list"

fun obj_put :: "(string \<times> json) list \<Rightarrow> string \<Rightarrow> json \<Rightarrow> (string \<times> json) list" where
  "obj_put [] k v = [(k, v)]"
| "obj_put ((k', v') # kvs) k v = (if k' = k then (k, v) # kvs else (k', v') # obj_put kvs k v)"

definition obj_set :: "(string \<times> json) list \<Rightarrow> string \<Rightarrow> json \<Rightarrow> (string \<times> json) list" where
  "obj_set kvs k v = (if k = ''__proto__'' then kvs else obj_put kvs k v)"

text \<open>The values that count as false in a condition: \<^verbatim>\<open>null\<close>, \<^verbatim>\<open>false\<close>, \<^verbatim>\<open>0\<close>, \<^verbatim>\<open>""\<close>.\<close>

fun falsy :: "json \<Rightarrow> bool" where
  "falsy JNull = True"
| "falsy (JBool b) = (\<not> b)"
| "falsy (JNum n) = (n = 0)"
| "falsy (JStr s) = (s = [])"
| "falsy (JArr xs) = False"
| "falsy (JObj kvs) = False"

text \<open>The textual form of a value (\<^verbatim>\<open>String(value)\<close>), which string concatenation and
  \<^verbatim>\<open>String.prototype.replace\<close> apply to a value that is not a string.\<close>

function nat_to_string :: "nat \<Rightarrow> string" where
  "nat_to_string n =
     (if n < 10 then [''0123456789'' ! n]
      else nat_to_string (n div 10) @ [''0123456789'' ! (n mod 10)])"
  by pat_completeness auto
termination
  by (relation "measure id") auto

definition int_to_string :: "int \<Rightarrow> string" where
  "int_to_string i = (if i < 0 then CHR ''-'' # nat_to_string (nat (- i)) else nat_to_string (nat i))"

fun join_with :: "string \<Rightarrow> string list \<Rightarrow> string" where
  "join_with sep [] = []"
| "join_with sep [s] = s"
| "join_with sep (s # t # ss) = s @ sep @ join_with sep (t # ss)"

fun js_toString :: "json \<Rightarrow> string" where
  "js_toString JNull = ''null''"
| "js_toString (JBool b) = (if b then ''true'' else ''false'')"
| "js_toString (JNum n) = int_to_string (sint n)"
| "js_toString (JStr s) = s"
| "js_toString (JArr xs) = join_with '','' (map (\<lambda>x. if x = JNull then [] else js_toString x) xs)"
| "js_toString (JObj kvs) = ''[object Object]''"

text \<open>
  \<^verbatim>\<open>lodash.isEqual\<close>: deep equality; two objects are equal when they have the same keys
  and equal values under each key, in whatever order the keys are.
\<close>

fun isEqual :: "json \<Rightarrow> json \<Rightarrow> bool" where
  "isEqual (JArr xs) (JArr ys) = list_all2 isEqual xs ys"
| "isEqual (JObj kvs) (JObj kws) =
     (set (map fst kvs) = set (map fst kws) \<and>
      list_all (\<lambda>(k, v). list_all (\<lambda>(k', v'). k = k' \<longrightarrow> isEqual v v') kws) kvs)"
| "isEqual a b = (a = b)"

text \<open>
  The environment is an object created by \<^verbatim>\<open>{}\<close>: its own properties map a variable
  name to a value, and it inherits the members of \<^verbatim>\<open>Object.prototype\<close>. \<^verbatim>\<open>vars[name]\<close>
  is the value of an own property, else the inherited member of that name (a built-in
  function, or for \<^verbatim>\<open>__proto__\<close> the prototype object itself), else \<^verbatim>\<open>undefined\<close>.
\<close>

type_synonym vars = "string \<rightharpoonup> json"

datatype jsval =
    JsUndefined
  | JsValue json
  | JsBuiltin string
  | JsObjectPrototype

definition object_prototype_functions :: "string list" where
  "object_prototype_functions =
     [''constructor'', ''__defineGetter__'', ''__defineSetter__'', ''hasOwnProperty'',
      ''__lookupGetter__'', ''__lookupSetter__'', ''isPrototypeOf'', ''propertyIsEnumerable'',
      ''toString'', ''valueOf'', ''toLocaleString'']"

definition vars_get :: "vars \<Rightarrow> string \<Rightarrow> jsval" where
  "vars_get vs name =
     (case vs name of
        Some v \<Rightarrow> JsValue v
      | None \<Rightarrow>
          if name \<in> set object_prototype_functions then JsBuiltin name
          else if name = ''__proto__'' then JsObjectPrototype
          else JsUndefined)"

subsection \<open>getMatches, normalizeVar, getVarNames (hapi.js 2329-2341, 1802-1825)\<close>

text \<open>The class \<^verbatim>\<open>\w\<close> of the regular expression: letters, digits and the underscore.\<close>

definition word_char :: "char \<Rightarrow> bool" where
  "word_char c =
     (let n = (of_char c :: nat) in
      (48 \<le> n \<and> n \<le> 57) \<or> (65 \<le> n \<and> n \<le> 90) \<or> (97 \<le> n \<and> n \<le> 122) \<or> n = 95)"

text \<open>
  \<^verbatim>\<open>str.match(/\${(\w*)}|\$(\w*)/g) || []\<close>: the matches from left to right. At a dollar
  sign the first alternative needs an opening brace, word characters and a closing
  brace; when it fails the second alternative matches the dollar sign and the word
  characters after it (none, if a brace follows).
\<close>

function getMatches :: "string \<Rightarrow> string list" where
  "getMatches [] = []"
| "getMatches (c # cs) =
     (if c = CHR ''$'' then
        (case cs of
           d # rest \<Rightarrow>
             (if d = CHR ''{'' then
                (case dropWhile word_char rest of
                   e # after \<Rightarrow>
                     (if e = CHR ''}''
                      then (''${'' @ takeWhile word_char rest @ ''}'') # getMatches after
                      else ''$'' # getMatches cs)
                 | [] \<Rightarrow> ''$'' # getMatches cs)
              else (CHR ''$'' # takeWhile word_char cs) # getMatches (dropWhile word_char cs))
         | [] \<Rightarrow> [''$''])
      else getMatches cs)"
  by pat_completeness auto
termination
proof -
  have drop_less: "length ys < length xs" if "dropWhile P xs = y # ys"
    for P :: "char \<Rightarrow> bool" and xs ys y
  proof -
    have "length (y # ys) \<le> length xs"
      using that length_dropWhile_le [of P xs] by simp
    then show ?thesis by simp
  qed
  show ?thesis
    by (relation "measure length")
       (auto simp: less_Suc_eq_le length_dropWhile_le dest: drop_less intro: le_SucI)
qed

text \<open>
  \<^verbatim>\<open>str.substring(a, b)\<close>: both indices are clamped to the length and swapped when
  \<open>a > b\<close>. \<^verbatim>\<open>normalizeVar\<close>: the name inside \<^verbatim>\<open>${name}\<close> or after \<^verbatim>\<open>$\<close>.
\<close>

definition substring :: "nat \<Rightarrow> nat \<Rightarrow> string \<Rightarrow> string" where
  "substring a b str =
     (let a' = min a (length str); b' = min b (length str);
          lo = min a' b'; hi = max a' b'
      in take (hi - lo) (drop lo str))"

definition normalizeVar :: "string \<Rightarrow> string" where
  "normalizeVar str =
     (if str = [] \<or> \<not> prefix ''$'' str then str
      else if prefix ''${'' str then substring 2 (length str - 1) str
      else drop 1 str)"

text \<open>
  \<^verbatim>\<open>scanForVars\<close>: the names referenced by the strings of a value, each once, in order of
  first occurrence; of an object only the values are scanned.
\<close>

fun scanForVars :: "json \<Rightarrow> string list \<Rightarrow> string list"
  and scanForVars_list :: "json list \<Rightarrow> string list \<Rightarrow> string list"
  and scanForVars_obj :: "(string \<times> json) list \<Rightarrow> string list \<Rightarrow> string list" where
  "scanForVars JNull varList = varList"
| "scanForVars (JBool b) varList = varList"
| "scanForVars (JNum n) varList = varList"
| "scanForVars (JStr s) varList = foldl (\<lambda>l varStr. addUniq l (normalizeVar varStr)) varList (getMatches s)"
| "scanForVars (JArr xs) varList = scanForVars_list xs varList"
| "scanForVars (JObj kvs) varList = scanForVars_obj kvs varList"
| "scanForVars_list [] varList = varList"
| "scanForVars_list (x # xs) varList = scanForVars_list xs (scanForVars x varList)"
| "scanForVars_obj [] varList = varList"
| "scanForVars_obj ((k, v) # kvs) varList = scanForVars_obj kvs (scanForVars v varList)"

text \<open>\<^verbatim>\<open>getVarNames(input)\<close>; \<open>None\<close> is an absent (\<^verbatim>\<open>undefined\<close>) input.\<close>

definition getVarNames :: "json option \<Rightarrow> string list" where
  "getVarNames input = (case input of None \<Rightarrow> [] | Some j \<Rightarrow> scanForVars j [])"

section \<open>Variable substitution: resolve, resolve2, resolveStr (hapi.js 2108-2155)\<close>

datatype error =
    NotDefined string
  | Unresolved json
  | NoVarCombinations string
  | NeedsSerialVars string
  | MissingField string string
  | MultipleVarNew string
  | NoPath string
  | NoProducers string
  | ApiNotFound string
  | RangeError
  | SerialVarNoValue string
  | ProgramError
  | TypeError
  | MissingHookField
  | InvalidHook
  | NoPathVarSet string
  | OutsideModel

text \<open>
  \<^verbatim>\<open>str.replace(varStr, varVal)\<close> with a string pattern replaces the first occurrence of
  the pattern. \<^verbatim>\<open>split_at_first\<close> finds it: the text before and the text after. In
  the replacement text \<^verbatim>\<open>$$\<close> stands for a dollar sign, \<^verbatim>\<open>$&\<close> for the matched text,
  \<^verbatim>\<open>$`\<close> for the text before the match and \<^verbatim>\<open>$'\<close> for the text after it.
\<close>

fun split_at_first :: "string \<Rightarrow> string \<Rightarrow> (string \<times> string) option" where
  "split_at_first pat [] = (if pat = [] then Some ([], []) else None)"
| "split_at_first pat (c # cs) =
     (if prefix pat (c # cs) then Some ([], drop (length pat) (c # cs))
      else map_option (\<lambda>(pre, post). (c # pre, post)) (split_at_first pat cs))"

fun getSubstitution :: "string \<Rightarrow> string \<Rightarrow> string \<Rightarrow> string \<Rightarrow> string" where
  "getSubstitution matched pre post (c # d # r) =
     (if c = CHR ''$'' then
        (if d = CHR ''$'' then CHR ''$'' # getSubstitution matched pre post r
         else if d = CHR ''&'' then matched @ getSubstitution matched pre post r
         else if d = CHR 0x60 then pre @ getSubstitution matched pre post r
         else if d = CHR 0x27 then post @ getSubstitution matched pre post r
         else c # getSubstitution matched pre post (d # r))
      else c # getSubstitution matched pre post (d # r))"
| "getSubstitution matched pre post r = r"

definition js_replace :: "string \<Rightarrow> string \<Rightarrow> string \<Rightarrow> string" where
  "js_replace str pat replacement =
     (case split_at_first pat str of
        None \<Rightarrow> str
      | Some (pre, post) \<Rightarrow> pre @ getSubstitution pat pre post replacement @ post)"

text \<open>
  \<^verbatim>\<open>str.replace(varStr, fn)\<close> with a function: when the pattern occurs, the function is
  called with the matched text (then the position and the string), \<^verbatim>\<open>this\<close> being
  \<^verbatim>\<open>undefined\<close>, and the textual form of what it returns replaces the first occurrence
  as it is. \<^verbatim>\<open>call_builtin\<close> is that call for the functions of \<^verbatim>\<open>Object.prototype\<close>, by
  ECMAScript: \<^verbatim>\<open>toString\<close> returns \<^verbatim>\<open>[object Undefined]\<close>; \<^verbatim>\<open>isPrototypeOf\<close> returns
  \<^verbatim>\<open>false\<close>, its argument not being an object; \<^verbatim>\<open>constructor\<close>, which is \<^verbatim>\<open>Object\<close>, returns
  a String object that wraps the matched text; the others throw a TypeError, since
  they convert \<^verbatim>\<open>this\<close> to an object.
\<close>

definition call_builtin :: "string \<Rightarrow> string \<Rightarrow> error + string" where
  "call_builtin f matched =
     (if f = ''toString'' then Inr ''[object Undefined]''
      else if f = ''isPrototypeOf'' then Inr ''false''
      else if f = ''constructor'' then Inr matched
      else Inl TypeError)"

definition js_replace_fn :: "string \<Rightarrow> string \<Rightarrow> (string \<Rightarrow> error + string) \<Rightarrow> error + string" where
  "js_replace_fn str pat fn =
     (case split_at_first pat str of
        None \<Rightarrow> Inr str
      | Some (pre, post) \<Rightarrow>
          (case fn pat of Inl e \<Rightarrow> Inl e | Inr replacement \<Rightarrow> Inr (pre @ replacement @ post)))"

text \<open>
  \<^verbatim>\<open>resolveStr\<close> with the resolver function of \<^verbatim>\<open>resolve2\<close>: the matches are computed
  once, on the string as given; for each the resolver reads \<^verbatim>\<open>vars[varName]\<close> and throws
  when that is \<^verbatim>\<open>undefined\<close>; then the first occurrence of the reference in the current
  string is replaced: by the textual form of a value, by what an inherited function
  returns, by \<^verbatim>\<open>[object Object]\<close> for the prototype object.
\<close>

fun resolveStr_loop :: "vars \<Rightarrow> string list \<Rightarrow> string \<Rightarrow> error + string" where
  "resolveStr_loop vs [] str = Inr str"
| "resolveStr_loop vs (varStr # matches) str =
     (case vars_get vs (normalizeVar varStr) of
        JsUndefined \<Rightarrow> Inl (NotDefined (normalizeVar varStr))
      | JsValue varVal \<Rightarrow> resolveStr_loop vs matches (js_replace str varStr (js_toString varVal))
      | JsBuiltin f \<Rightarrow>
          (case js_replace_fn str varStr (call_builtin f) of
             Inl e \<Rightarrow> Inl e
           | Inr str' \<Rightarrow> resolveStr_loop vs matches str')
      | JsObjectPrototype \<Rightarrow> resolveStr_loop vs matches (js_replace str varStr ''[object Object]''))"

definition resolveStr :: "vars \<Rightarrow> string \<Rightarrow> error + string" where
  "resolveStr vs str = resolveStr_loop vs (getMatches str) str"

text \<open>
  \<^verbatim>\<open>resolve2(toResolve, vars)\<close>; \<open>None\<close> for \<open>vars\<close> is an absent environment
  (\<^verbatim>\<open>!vars\<close>). A false value is returned as it is; a string is substituted; an array is
  rebuilt element by element; an object is rebuilt with every key and every value
  substituted, a later key replacing an equal earlier one; anything else is returned as
  it is. The first error thrown ends the pass.
\<close>

fun resolve2_with :: "vars \<Rightarrow> json \<Rightarrow> error + json"
  and resolve2_list :: "vars \<Rightarrow> json list \<Rightarrow> error + json list"
  and resolve2_obj :: "vars \<Rightarrow> (string \<times> json) list \<Rightarrow> (string \<times> json) list
        \<Rightarrow> error + (string \<times> json) list" where
  "resolve2_with vs JNull = Inr JNull"
| "resolve2_with vs (JBool b) = Inr (JBool b)"
| "resolve2_with vs (JNum n) = Inr (JNum n)"
| "resolve2_with vs (JStr s) =
     (if s = [] then Inr (JStr s)
      else (case resolveStr vs s of Inl e \<Rightarrow> Inl e | Inr s' \<Rightarrow> Inr (JStr s')))"
| "resolve2_with vs (JArr xs) =
     (case resolve2_list vs xs of Inl e \<Rightarrow> Inl e | Inr list \<Rightarrow> Inr (JArr list))"
| "resolve2_with vs (JObj kvs) =
     (case resolve2_obj vs kvs [] of Inl e \<Rightarrow> Inl e | Inr obj \<Rightarrow> Inr (JObj obj))"
| "resolve2_list vs [] = Inr []"
| "resolve2_list vs (ele # xs) =
     (case resolve2_with vs ele of
        Inl e \<Rightarrow> Inl e
      | Inr v \<Rightarrow> (case resolve2_list vs xs of Inl e \<Rightarrow> Inl e | Inr list \<Rightarrow> Inr (v # list)))"
| "resolve2_obj vs [] obj = Inr obj"
| "resolve2_obj vs ((key, val) # kvs) obj =
     (case (if key = [] then Inr key else resolveStr vs key) of
        Inl e \<Rightarrow> Inl e
      | Inr key' \<Rightarrow>
          (case resolve2_with vs val of
             Inl e \<Rightarrow> Inl e
           | Inr val' \<Rightarrow> resolve2_obj vs kvs (obj_set obj key' val')))"

definition resolve2 :: "json \<Rightarrow> vars option \<Rightarrow> error + json" where
  "resolve2 toResolve vars =
     (if falsy toResolve then Inr toResolve
      else (case vars of None \<Rightarrow> Inr toResolve | Some vs \<Rightarrow> resolve2_with vs toResolve))"

text \<open>
  The loop of \<^verbatim>\<open>resolve\<close>, \<^verbatim>\<open>for (count = 1; count < 50; count++)\<close>: the argument is the
  number of iterations left. Each iteration makes one more pass; the value is returned
  when the pass leaves it equal, and the function throws when the iterations are used up.
\<close>

fun resolve_loop :: "nat \<Rightarrow> vars option \<Rightarrow> json \<Rightarrow> error + json" where
  "resolve_loop 0 vars val1 = Inl (Unresolved val1)"
| "resolve_loop (Suc n) vars val1 =
     (case resolve2 val1 vars of
        Inl e \<Rightarrow> Inl e
      | Inr val2 \<Rightarrow> if isEqual val1 val2 then Inr val1 else resolve_loop n vars val2)"

definition resolve :: "json \<Rightarrow> vars option \<Rightarrow> error + json" where
  "resolve toResolve vars =
     (case resolve2 toResolve vars of
        Inl e \<Rightarrow> Inl e
      | Inr val1 \<Rightarrow> resolve_loop 49 vars val1)"


section \<open>Variable combinations (hapi.js 2069-2099) and RunContext.prototype.run (1101-1127)\<close>

text \<open>
  The body of the loop over \<^verbatim>\<open>varsArray\<close>: an environment whose value for the name is an
  array yields one copy per element, with the name set to the element; any other
  environment is kept.
\<close>

definition expand_var :: "string \<Rightarrow> vars \<Rightarrow> vars list" where
  "expand_var name vs =
     (case vs name of
        Some (JArr val) \<Rightarrow> map (\<lambda>x. vs(name \<mapsto> x)) val
      | _ \<Rightarrow> [vs])"

text \<open>
  \<^verbatim>\<open>getVarCombinationsRecurse(varsArray, names)\<close>. \<^verbatim>\<open>names.shift()\<close> removes the first
  name from the caller's array, so the model returns the array as the call leaves it
  together with the combinations. The recursion stops when \<^verbatim>\<open>shift\<close> returns a false
  value: \<^verbatim>\<open>undefined\<close> on an empty array, or an empty name.
\<close>

fun getVarCombinationsRecurse :: "vars list \<Rightarrow> string list \<Rightarrow> vars list \<times> string list" where
  "getVarCombinationsRecurse varsArray [] = (varsArray, [])"
| "getVarCombinationsRecurse varsArray (name # names) =
     (if name = [] then (varsArray, names)
      else getVarCombinationsRecurse (concat (map (expand_var name) varsArray)) names)"

text \<open>\<^verbatim>\<open>getVarCombinations(vars, names)\<close> for an array \<^verbatim>\<open>names\<close>.\<close>

definition getVarCombinations :: "vars \<Rightarrow> string list \<Rightarrow> vars list \<times> string list" where
  "getVarCombinations vs names = getVarCombinationsRecurse [vs] names"

text \<open>
  The references of a value, in the words of the specification: every \<^verbatim>\<open>$name\<close> or
  \<^verbatim>\<open>${name}\<close> occurrence in a string of the tree, keys of objects included
  (substitution applies to keys and values). This definition is not taken from the
  code; the properties compare \<^verbatim>\<open>resolve\<close> with it.
\<close>

fun var_refs :: "json \<Rightarrow> string list"
  and var_refs_list :: "json list \<Rightarrow> string list"
  and var_refs_obj :: "(string \<times> json) list \<Rightarrow> string list" where
  "var_refs JNull = []"
| "var_refs (JBool b) = []"
| "var_refs (JNum n) = []"
| "var_refs (JStr s) = map normalizeVar (getMatches s)"
| "var_refs (JArr xs) = var_refs_list xs"
| "var_refs (JObj kvs) = var_refs_obj kvs"
| "var_refs_list [] = []"
| "var_refs_list (x # xs) = var_refs x @ var_refs_list xs"
| "var_refs_obj [] = []"
| "var_refs_obj ((k, v) # kvs) = map normalizeVar (getMatches k) @ var_refs v @ var_refs_obj kvs"

section \<open>The planner: Api, Node, insertApi, addChild, compile (hapi.js 218-259, 279-326, 851-1023)\<close>

text \<open>
  What the planner reads of an Api object. \<open>aid\<close> stands for the identity of the object
  (the code compares APIs with \<^verbatim>\<open>===\<close>); \<open>mapi_valued_vars\<close> are the variables of the
  API's descriptor that have a \<^verbatim>\<open>value\<close>, which \<^verbatim>\<open>getPredefinedVars\<close> adds to the keys of
  \<^verbatim>\<open>hapi.vars\<close>.
\<close>

record var_new =
  vn_name :: string
  vn_path :: "string option"
  vn_get :: string
  vn_delete :: string
  vn_serial_vars :: "string list option"

record api =
  aid :: nat
  api_name :: string
  consumes :: "string list"
  produces :: "string list"
  deletes :: "string list"
  var_new :: "var_new option"
  serial_vars :: "string list option"
  requestBodyVars :: "string list option"
  mapi_valued_vars :: "string list"

record hapi =
  apis :: "api list"
  referencedApis :: "string list"
  hapi_var_names :: "string list"

text \<open>
  Nodes live in a store, a list indexed by address: a reference to a node is its index,
  the root is created first, and a node is always created after its parent. The
  identifiers \<^verbatim>\<open>id\<close>, \<^verbatim>\<open>path\<close>, \<^verbatim>\<open>depth\<close> and \<^verbatim>\<open>indent\<close>, used for logging only, are left out.
  \<^verbatim>\<open>inserting\<close> maps the name of an API to its re-entrancy flag.
\<close>

record node =
  node_api :: "api option"
  parent :: "nat option"
  children :: "nat list"
  node_produces :: "string list"
  subTreeProduces :: "string list"
  preRun :: "nat option"
  postRun :: "nat option"
  inserting :: "string \<rightharpoonup> bool"

text \<open>
  The loops \<^verbatim>\<open>while (node) { ...; node = node.parent; }\<close> visit a node and its ancestors:
  \<open>chain\<close> lists them, nearest first. A parent has a smaller address than its child in
  every store the constructor builds.
\<close>

function chain :: "node list \<Rightarrow> nat \<Rightarrow> nat list" where
  "chain st i = i # (case parent (st ! i) of None \<Rightarrow> [] | Some p \<Rightarrow> if p < i then chain st p else [])"
  by pat_completeness auto
termination
  by (relation "measure snd") auto

declare chain.simps [simp del]

text \<open>\<^verbatim>\<open>Hapi.prototype.getPredefinedVars\<close> through \<^verbatim>\<open>Api\<close> and \<^verbatim>\<open>MultiResponseApi\<close>.\<close>

definition getPredefinedVars :: "hapi \<Rightarrow> api \<Rightarrow> string list" where
  "getPredefinedVars h a = hapi_var_names h @ mapi_valued_vars a"

text \<open>\<^verbatim>\<open>Hapi.prototype.findApi\<close>: the first API of the corpus with the name, or an error.\<close>

definition findApi :: "hapi \<Rightarrow> string \<Rightarrow> error + api" where
  "findApi h n = (case find (\<lambda>a. api_name a = n) (apis h) of Some a \<Rightarrow> Inr a | None \<Rightarrow> Inl (ApiNotFound n))"

text \<open>\<^verbatim>\<open>Hapi.prototype.getApiProducers\<close>: the APIs of the corpus whose \<^verbatim>\<open>produces\<close> includes the variable.\<close>

definition getApiProducers :: "hapi \<Rightarrow> string \<Rightarrow> api list" where
  "getApiProducers h varName =
     foldl (\<lambda>l a. if varName \<in> set (produces a) then addUniq l a else l) [] (apis h)"

text \<open>
  \<^verbatim>\<open>Node.prototype.addProduces\<close>, along the chain of the node: the array \<^verbatim>\<open>varNames\<close> is
  shared by the calls, so what one node's \<^verbatim>\<open>deletes\<close> removes stays removed further up.
\<close>

fun addProduces_walk :: "node list \<Rightarrow> nat list \<Rightarrow> string list \<Rightarrow> node list" where
  "addProduces_walk st [] varNames = st"
| "addProduces_walk st (i # ancestors) varNames =
     (let varNames' = (case node_api (st ! i) of
                         Some a \<Rightarrow> pullAll varNames (deletes a)
                       | None \<Rightarrow> varNames)
      in addProduces_walk
           (st[i := (st ! i)\<lparr>node_produces := addAllUniq (node_produces (st ! i)) varNames'\<rparr>])
           ancestors varNames')"

definition addProduces :: "node list \<Rightarrow> nat \<Rightarrow> string list \<Rightarrow> node list" where
  "addProduces st i varNames = addProduces_walk st (chain st i) varNames"

text \<open>
  The constructor \<^verbatim>\<open>Node(hapi, api, parent)\<close>: the new node gets the next address; with an
  API, its \<^verbatim>\<open>produces\<close> go up the chain and into its own \<^verbatim>\<open>subTreeProduces\<close>. The result
  is the store and the address of the new node.
\<close>

definition Node_new :: "node list \<Rightarrow> api option \<Rightarrow> nat option \<Rightarrow> node list \<times> nat" where
  "Node_new st a p =
     (let k = length st;
          st1 = st @ [\<lparr>node_api = a, parent = p, children = [], node_produces = [],
                       subTreeProduces = [], preRun = None, postRun = None,
                       inserting = Map.empty\<rparr>]
      in (case a of
            None \<Rightarrow> (st1, k)
          | Some b \<Rightarrow>
              (let st2 = addProduces st1 k (produces b)
               in (st2[k := (st2 ! k)\<lparr>subTreeProduces :=
                              addAllUniq (subTreeProduces (st2 ! k)) (produces b)\<rparr>], k))))"

text \<open>\<^verbatim>\<open>Node.prototype.usesApi\<close>: the API is hosted by the node or by an ancestor.\<close>

definition usesApi :: "node list \<Rightarrow> nat \<Rightarrow> api \<Rightarrow> bool" where
  "usesApi st n a = list_ex (\<lambda>i. node_api (st ! i) = Some a) (chain st n)"

text \<open>\<^verbatim>\<open>Node.prototype.producesVar\<close>: the subtree produces one of the names.\<close>

definition producesVar :: "node list \<Rightarrow> nat \<Rightarrow> string list \<Rightarrow> bool" where
  "producesVar st c varNames = list_ex (\<lambda>v. v \<in> set (subTreeProduces (st ! c))) varNames"

text \<open>
  \<^verbatim>\<open>Node.prototype.getUndefinedVars\<close>: from a copy of \<^verbatim>\<open>api.consumes\<close>, pull what the API of
  the node and of each ancestor produces, then the predefined variables.
\<close>

definition getUndefinedVars :: "hapi \<Rightarrow> node list \<Rightarrow> nat \<Rightarrow> api \<Rightarrow> string list" where
  "getUndefinedVars h st n a =
     pullAll
       (foldl (\<lambda>undefinedVars i.
                 case node_api (st ! i) of
                   Some b \<Rightarrow> pullAll undefinedVars (produces b)
                 | None \<Rightarrow> undefinedVars)
              (consumes a) (chain st n))
       (getPredefinedVars h a)"

text \<open>
  The end of \<^verbatim>\<open>addChild\<close> (lines 1012-1022): push the new node onto the children of
  the node and add its \<^verbatim>\<open>subTreeProduces\<close> to those of the node and of every ancestor.
\<close>

definition link_child :: "node list \<Rightarrow> nat \<Rightarrow> nat \<Rightarrow> node list" where
  "link_child st n k =
     (let st1 = st[n := (st ! n)\<lparr>children := children (st ! n) @ [k]\<rparr>]
      in foldl (\<lambda>s i. s[i := (s ! i)\<lparr>subTreeProduces :=
                              addAllUniq (subTreeProduces (s ! i)) (subTreeProduces (s ! k))\<rparr>])
               st1 (chain st1 n))"

text \<open>
  \<^verbatim>\<open>Node.prototype.addChild\<close>. The first argument bounds the depth of the call stack
  that is left: \<^verbatim>\<open>addChild\<close> calls itself for the destructor under the \<^verbatim>\<open>preRun\<close> node,
  and a call with no stack left raises the engine's RangeError. An error leaves the
  store as it is at the throw. The result is the store and the node returned.
\<close>

fun addChild :: "nat \<Rightarrow> hapi \<Rightarrow> node list \<Rightarrow> nat \<Rightarrow> api \<Rightarrow> node list \<times> (error + nat)" where
  "addChild 0 h st n a = (st, Inl RangeError)"
| "addChild (Suc depth) h st n a =
     (case find (\<lambda>c. node_api (st ! c) = Some a) (children (st ! n)) of
        Some c \<Rightarrow> (st, Inr c)
      | None \<Rightarrow>
          (if (case postRun (st ! n) of None \<Rightarrow> False | Some pr \<Rightarrow> node_api (st ! pr) = Some a)
           then (st, Inr (the (postRun (st ! n))))
           else
             (let (st1, k) = Node_new st (Some a) (Some n) in
              case var_new a of
                None \<Rightarrow> (link_child st1 n k, Inr k)
              | Some vn \<Rightarrow>
                  (case findApi h (vn_get vn) of
                     Inl e \<Rightarrow> (st1, Inl e)
                   | Inr getApi \<Rightarrow>
                       (case findApi h (vn_delete vn) of
                          Inl e \<Rightarrow> (st1, Inl e)
                        | Inr deleteApi \<Rightarrow>
                            (let (st2, pre) = Node_new st1 (Some getApi) (Some k);
                                 st3 = st2[k := (st2 ! k)\<lparr>preRun := Some pre\<rparr>]
                             in case addChild depth h st3 pre deleteApi of
                                  (st4, Inl e) \<Rightarrow> (st4, Inl e)
                                | (st4, Inr _) \<Rightarrow>
                                    (let (st5, post) = Node_new st4 (Some deleteApi) (Some k);
                                         st6 = st5[k := (st5 ! k)\<lparr>postRun := Some post\<rparr>]
                                     in (link_child st6 n k, Inr k))))))))"

text \<open>
  The loop of \<^verbatim>\<open>insertApi\<close> over the children (lines 929-937); \<open>ins\<close> is
  \<^verbatim>\<open>child.insertApi(api)\<close>. The children are those the node has when the loop starts:
  the calls made inside the loop push nodes only below these children. An exception
  ends the loop. The result carries \<^verbatim>\<open>found\<close>.
\<close>

fun insertApi_children :: "(node list \<Rightarrow> nat \<Rightarrow> node list \<times> error option) \<Rightarrow> node list
    \<Rightarrow> nat list \<Rightarrow> string list \<Rightarrow> bool \<Rightarrow> node list \<times> error option \<times> bool" where
  "insertApi_children ins st [] undefinedVars found = (st, None, found)"
| "insertApi_children ins st (c # cs) undefinedVars found =
     (if producesVar st c undefinedVars
      then (case ins st c of
              (st', Some e) \<Rightarrow> (st', Some e, found)
            | (st', None) \<Rightarrow> insertApi_children ins st' cs undefinedVars True)
      else insertApi_children ins st cs undefinedVars found)"

text \<open>The loop over the producers (lines 944-946); \<open>ins\<close> is \<^verbatim>\<open>self.insertApi(producers[j])\<close>.\<close>

fun insertApi_producers :: "(node list \<Rightarrow> api \<Rightarrow> node list \<times> error option) \<Rightarrow> node list
    \<Rightarrow> api list \<Rightarrow> node list \<times> error option" where
  "insertApi_producers ins st [] = (st, None)"
| "insertApi_producers ins st (p # ps) =
     (case ins st p of
        (st', Some e) \<Rightarrow> (st', Some e)
      | (st', None) \<Rightarrow> insertApi_producers ins st' ps)"

text \<open>\<^verbatim>\<open>self.inserting[api.name] = flag\<close>.\<close>

definition set_inserting :: "node list \<Rightarrow> nat \<Rightarrow> string \<Rightarrow> bool \<Rightarrow> node list" where
  "set_inserting st n nm flag = st[n := (st ! n)\<lparr>inserting := (inserting (st ! n))(nm \<mapsto> flag)\<rparr>]"

text \<open>
  \<^verbatim>\<open>Node.prototype.insertApi\<close>. The first argument bounds the depth of the call stack
  that is left; the recursion of the code has no other bound, and a call with no stack
  left raises the engine's RangeError, which \<^verbatim>\<open>compile\<close> catches like any other error.
  The result is the store and the exception thrown, if any.
\<close>

fun insertApi :: "nat \<Rightarrow> hapi \<Rightarrow> node list \<Rightarrow> nat \<Rightarrow> api \<Rightarrow> node list \<times> error option" where
  "insertApi 0 h st n a = (st, Some RangeError)"
| "insertApi (Suc depth) h st n a =
     (if inserting (st ! n) (api_name a) = Some True then (st, None)
      else
        let st1 = set_inserting st n (api_name a) True in
        if \<not> isInsertableApi (referencedApis h) (api_name a) then (st1, None)
        else if usesApi st1 n a then (st1, None)
        else
          let undefinedVars = getUndefinedVars h st1 n a in
          if undefinedVars = [] then
            (case addChild depth h st1 n a of
               (st2, Inl e) \<Rightarrow> (st2, Some e)
             | (st2, Inr _) \<Rightarrow> (st2, None))
          else
            (case insertApi_children (\<lambda>s c. insertApi depth h s c a) st1
                    (children (st1 ! n)) undefinedVars False of
               (st2, Some e, _) \<Rightarrow> (st2, Some e)
             | (st2, None, found) \<Rightarrow>
                 if found then (st2, None)
                 else
                   let varName = hd undefinedVars;
                       producers = getApiProducers h varName
                   in if producers = [] then (st2, Some (NoProducers varName))
                      else
                        (case insertApi_producers (\<lambda>s p. insertApi depth h s n p) st2 producers of
                           (st3, Some e) \<Rightarrow> (st3, Some e)
                         | (st3, None) \<Rightarrow>
                             insertApi depth h (set_inserting st3 n (api_name a) False) n a)))"

text \<open>
  \<^verbatim>\<open>Hapi.prototype.compile\<close>. A descriptor is given by its groups and the APIs that
  \<^verbatim>\<open>getApis\<close> expands it to. \<^verbatim>\<open>matches\<close> is \<^verbatim>\<open>MultiResponseApi.prototype.matches\<close>;
  \<^verbatim>\<open>select_apis\<close> is the loop over the APIs of one descriptor, in which \<^verbatim>\<open>match\<close>, once true,
  stays true.
\<close>

record mapi =
  groups :: "string list"
  mapi_apis :: "api list"

definition matches :: "mapi \<Rightarrow> string list option \<Rightarrow> bool" where
  "matches m testNames =
     (case testNames of
        None \<Rightarrow> True
      | Some names \<Rightarrow> list_ex (\<lambda>g. list_ex (\<lambda>t. prefix t g) names) (groups m))"

fun select_apis :: "string list option \<Rightarrow> bool \<Rightarrow> api list \<Rightarrow> api list" where
  "select_apis testNames match [] = []"
| "select_apis testNames match (a # rest) =
     (let match' = (match \<or> (case testNames of
                                None \<Rightarrow> False
                              | Some names \<Rightarrow> list_ex (\<lambda>t. prefix t (api_name a)) names))
      in (if match' then [a] else []) @ select_apis testNames match' rest)"

definition apisToInsert :: "mapi list \<Rightarrow> string list option \<Rightarrow> api list" where
  "apisToInsert mapis testNames =
     concat (map (\<lambda>m. select_apis testNames (matches m testNames) (mapi_apis m)) mapis)"

text \<open>The loop \<^verbatim>\<open>root.insertApi(api)\<close> inside \<^verbatim>\<open>try\<close>: an exception is pushed onto the errors.\<close>

fun compile_loop :: "nat \<Rightarrow> hapi \<Rightarrow> api list \<Rightarrow> node list \<times> (string \<times> error) list
    \<Rightarrow> node list \<times> (string \<times> error) list" where
  "compile_loop depth h [] (st, errors) = (st, errors)"
| "compile_loop depth h (a # rest) (st, errors) =
     (case insertApi depth h st 0 a of
        (st', None) \<Rightarrow> compile_loop depth h rest (st', errors)
      | (st', Some e) \<Rightarrow> compile_loop depth h rest (st', errors @ [(api_name a, e)]))"

text \<open>
  \<^verbatim>\<open>compile\<close>: the corpus \<^verbatim>\<open>self.apis\<close> is every API of every descriptor; the root is the
  node at address 0 of a fresh store. The result is the store and the errors.
\<close>

definition compile :: "nat \<Rightarrow> hapi \<Rightarrow> mapi list \<Rightarrow> string list option
    \<Rightarrow> node list \<times> (string \<times> error) list" where
  "compile depth h mapis testNames =
     (let h' = h\<lparr>apis := apis h @ concat (map mapi_apis mapis)\<rparr>
      in compile_loop depth h' (apisToInsert mapis testNames) (fst (Node_new [] None None), []))"

section \<open>Registering referenced APIs: scanHook and the var_new case of scanActions (hapi.js 740-765, 810-828)\<close>

text \<open>
  A hook as a descriptor declares it: nothing (\<^verbatim>\<open>undefined\<close>), a function, a string, an
  object (given by the value of its \<^verbatim>\<open>hook\<close> field, nothing when the field is missing),
  an array, or a value of another type. \<^verbatim>\<open>isObject\<close> is \<^verbatim>\<open>util.isObject\<close> of Node, which
  common.js exports over the function of lodash: a function is not an object.
\<close>

datatype hook_decl =
    HookNone
  | HookFunction
  | HookString string
  | HookObject hook_decl
  | HookArray "hook_decl list"
  | HookInvalid

text \<open>\<^verbatim>\<open>!hook\<close>: nothing and the empty string are false.\<close>

fun hook_falsy :: "hook_decl \<Rightarrow> bool" where
  "hook_falsy HookNone = True"
| "hook_falsy (HookString s) = (s = [])"
| "hook_falsy h = False"

text \<open>
  \<^verbatim>\<open>Api.prototype.scanHook\<close>, threading \<^verbatim>\<open>hapi.referencedApis\<close>: the result is the list
  as the call leaves it and the exception thrown, if any.
\<close>

fun scanHook :: "string list \<Rightarrow> hook_decl \<Rightarrow> string list \<times> error option"
  and scanHook_list :: "string list \<Rightarrow> hook_decl list \<Rightarrow> string list \<times> error option" where
  "scanHook refs HookNone = (refs, None)"
| "scanHook refs (HookArray hs) = scanHook_list refs hs"
| "scanHook refs (HookObject h) =
     (if hook_falsy h then (refs, Some MissingHookField) else scanHook refs h)"
| "scanHook refs (HookString s) = (if s = [] then (refs, None) else (addUniq refs s, None))"
| "scanHook refs HookFunction = (refs, None)"
| "scanHook refs HookInvalid = (refs, Some InvalidHook)"
| "scanHook_list refs [] = (refs, None)"
| "scanHook_list refs (h # hs) =
     (case scanHook refs h of
        (refs', Some e) \<Rightarrow> (refs', Some e)
      | (refs', None) \<Rightarrow> scanHook_list refs' hs)"

text \<open>The strings a hook names, in the words of the specification ("string hooks").\<close>

fun hook_strings :: "hook_decl \<Rightarrow> string set"
  and hook_strings_list :: "hook_decl list \<Rightarrow> string set" where
  "hook_strings (HookString s) = (if s = [] then {} else {s})"
| "hook_strings (HookObject h) = hook_strings h"
| "hook_strings (HookArray hs) = hook_strings_list hs"
| "hook_strings HookNone = {}"
| "hook_strings HookFunction = {}"
| "hook_strings HookInvalid = {}"
| "hook_strings_list [] = {}"
| "hook_strings_list (h # hs) = hook_strings h \<union> hook_strings_list hs"

text \<open>
  A \<^verbatim>\<open>var_new\<close> action as the descriptor gives it: any field may be missing.
\<close>

record var_new_raw =
  raw_name :: "string option"
  raw_path :: "string option"
  raw_get :: "string option"
  raw_delete :: "string option"
  raw_serial_vars :: "string list option"

text \<open>
  The \<^verbatim>\<open>case 'var_new'\<close> of \<^verbatim>\<open>Api.prototype.scanActions\<close> (lines 740-765), on the API
  under construction and \<^verbatim>\<open>hapi.referencedApis\<close>; \<open>path\<close> is the scan path (\<open>None\<close> is
  \<^verbatim>\<open>undefined\<close>). The three \<^verbatim>\<open>actionCheck\<close> calls throw on a missing field. The
  \<^verbatim>\<open>serial_vars\<close> of the API are the field of the action if it has one, else
  \<^verbatim>\<open>self.requestBodyVars\<close> if that is true, else the function throws. The result is
  \<^verbatim>\<open>hapi.referencedApis\<close> as the call leaves it, and the API or the exception. The push
  onto \<^verbatim>\<open>self.actions\<close> is left out: nothing here reads the actions.
\<close>

definition scanActions_var_new :: "api \<Rightarrow> string list \<Rightarrow> var_new_raw \<Rightarrow> string option
    \<Rightarrow> string list \<times> (error + api)" where
  "scanActions_var_new self refs vn path =
     (case raw_name vn of
        None \<Rightarrow> (refs, Inl (MissingField ''var_new'' ''name''))
      | Some nm \<Rightarrow>
     (case raw_get vn of
        None \<Rightarrow> (refs, Inl (MissingField ''var_new'' ''get''))
      | Some g \<Rightarrow>
     (case raw_delete vn of
        None \<Rightarrow> (refs, Inl (MissingField ''var_new'' ''delete''))
      | Some d \<Rightarrow>
     (if var_new self \<noteq> None then (refs, Inl (MultipleVarNew (api_name self)))
      else if (raw_path vn = None \<or> raw_path vn = Some []) \<and> (path = None \<or> path = Some [])
      then (refs, Inl (NoPath (api_name self)))
      else
        (let p = (if raw_path vn = None \<or> raw_path vn = Some [] then path else raw_path vn);
             refs' = addUniq (addUniq refs g) d;
             self1 = self\<lparr>produces := produces self @ [nm]\<rparr>
         in (case raw_serial_vars vn of
               Some sv \<Rightarrow>
                 (refs', Inr (self1\<lparr>var_new := Some \<lparr>vn_name = nm, vn_path = p, vn_get = g,
                                    vn_delete = d, vn_serial_vars = Some sv\<rparr>,
                                  serial_vars := Some sv\<rparr>))
             | None \<Rightarrow>
                 (case requestBodyVars self of
                    Some rbv \<Rightarrow>
                      (refs', Inr (self1\<lparr>var_new := Some \<lparr>vn_name = nm, vn_path = p, vn_get = g,
                                         vn_delete = d, vn_serial_vars = None\<rparr>,
                                       serial_vars := Some rbv\<rparr>))
                  | None \<Rightarrow> (refs', Inl (NeedsSerialVars (api_name self))))))))))"

text \<open>
  What \<^verbatim>\<open>MultiResponseApi.prototype.getApis\<close> passes to the constructor as
  \<^verbatim>\<open>requestBodyVars\<close> (lines 600, 605) and the constructor stores (line 641): the array
  that \<^verbatim>\<open>getVarNames(test.request.body)\<close> returns. This is the only call of the
  constructor. \<open>None\<close> for the body is a request without one.
\<close>

definition getApis_requestBodyVars :: "json option \<Rightarrow> string list option" where
  "getApis_requestBodyVars body = Some (getVarNames body)"

section \<open>The scan of a descriptor for actions: Api.prototype.scanActions and the constructor (hapi.js 636-670, 728-808)\<close>

text \<open>
  The fields of an action that hold names are strings, a \<^verbatim>\<open>path\<close> is a string and
  \<^verbatim>\<open>serial_vars\<close> an array of strings, like \<^verbatim>\<open>consumes\<close> and \<^verbatim>\<open>produces\<close>; a field tested as a
  condition may also hold a false value, which counts as absent. The code stores
  whatever value it finds. A descriptor with another value in one of these fields is
  outside this model, and the scan of it ends with \<open>OutsideModel\<close>.
\<close>

fun as_str :: "json option \<Rightarrow> string option" where
  "as_str (Some (JStr s)) = Some s"
| "as_str v = None"

fun as_strs :: "json list \<Rightarrow> string list option" where
  "as_strs [] = Some []"
| "as_strs (JStr s # xs) = map_option (\<lambda>l. s # l) (as_strs xs)"
| "as_strs (x # xs) = None"

text \<open>
  A field that may be absent: \<open>Some None\<close> when it is absent or holds a false value,
  \<open>Some (Some x)\<close> when it holds a value of the expected type, \<open>None\<close> otherwise.
\<close>

definition opt_str :: "json option \<Rightarrow> string option option" where
  "opt_str v =
     (case v of
        None \<Rightarrow> Some None
      | Some j \<Rightarrow> if falsy j then Some None else (case j of JStr s \<Rightarrow> Some (Some s) | _ \<Rightarrow> None))"

definition opt_strs :: "json option \<Rightarrow> string list option option" where
  "opt_strs v =
     (case v of
        None \<Rightarrow> Some None
      | Some j \<Rightarrow>
          if falsy j then Some None
          else (case j of JArr xs \<Rightarrow> map_option Some (as_strs xs) | _ \<Rightarrow> None))"

text \<open>
  The \<^verbatim>\<open>var_new\<close> action of a descriptor, read field by field: a field that
  \<^verbatim>\<open>hasOwnProperty\<close> does not find is \<open>None\<close>.
\<close>

definition var_new_raw_of :: "(string \<times> json) list \<Rightarrow> var_new_raw option" where
  "var_new_raw_of kvs =
     (if (map_of kvs ''name'' \<noteq> None \<and> as_str (map_of kvs ''name'') = None)
         \<or> (map_of kvs ''get'' \<noteq> None \<and> as_str (map_of kvs ''get'') = None)
         \<or> (map_of kvs ''delete'' \<noteq> None \<and> as_str (map_of kvs ''delete'') = None)
      then None
      else (case opt_str (map_of kvs ''path'') of
              None \<Rightarrow> None
            | Some p \<Rightarrow>
                (case opt_strs (map_of kvs ''serial_vars'') of
                   None \<Rightarrow> None
                 | Some sv \<Rightarrow>
                     Some \<lparr>raw_name = as_str (map_of kvs ''name''), raw_path = p,
                           raw_get = as_str (map_of kvs ''get''),
                           raw_delete = as_str (map_of kvs ''delete''),
                           raw_serial_vars = sv\<rparr>)))"

text \<open>
  The path handed down to \<^verbatim>\<open>toScan[key]\<close> (lines 798-804): a string path is extended by
  the key, unless the key is \<^verbatim>\<open>__\<close>; without a string path the key \<^verbatim>\<open>body\<close> starts the
  empty path.
\<close>

definition next_path :: "string option \<Rightarrow> string \<Rightarrow> string option" where
  "next_path path key =
     (case path of
        Some p \<Rightarrow> if key \<noteq> ''__'' then Some ((if p \<noteq> [] then p @ ''.'' else []) @ key) else Some p
      | None \<Rightarrow> if key = ''body'' then Some [] else None)"

text \<open>
  The \<^verbatim>\<open>switch\<close> on a key of the object scanned (lines 739-797), on the API under
  construction and \<^verbatim>\<open>hapi.referencedApis\<close>; \<open>v\<close> is the value under the key. Reading a
  field of \<^verbatim>\<open>null\<close> is a TypeError, and \<^verbatim>\<open>hasOwnProperty\<close> finds no field in a value that
  is not an object. A \<^verbatim>\<open>var_set\<close> that gives neither a path nor a function gets the path
  of the scan: a string is wrapped into an object with that path, and the assignment
  of the path to a number or a boolean is a TypeError (the file is in strict mode). The
  pushes onto \<^verbatim>\<open>self.actions\<close> and the entry in \<^verbatim>\<open>hapi.varDeleteApis\<close> are left out:
  nothing here reads them.
\<close>

definition scanActions_case :: "api \<Rightarrow> string list \<Rightarrow> string \<Rightarrow> json \<Rightarrow> string option
    \<Rightarrow> string list \<times> (error + api)" where
  "scanActions_case self refs key v path =
     (if key = ''var_new'' then
        (case v of
           JNull \<Rightarrow> (refs, Inl TypeError)
         | JObj kvs \<Rightarrow>
             (case var_new_raw_of kvs of
                None \<Rightarrow> (refs, Inl OutsideModel)
              | Some vn \<Rightarrow> scanActions_var_new self refs vn path)
         | _ \<Rightarrow> (refs, Inl (MissingField ''var_new'' ''name'')))
      else if key = ''var_set'' then
        (case v of
           JNull \<Rightarrow> (refs, Inl TypeError)
         | _ \<Rightarrow>
             (let given = (case v of
                             JObj kvs \<Rightarrow>
                               (case map_of kvs ''path'' of None \<Rightarrow> False | Some j \<Rightarrow> \<not> falsy j)
                               \<or> (case map_of kvs ''fcn'' of None \<Rightarrow> False | Some j \<Rightarrow> \<not> falsy j)
                           | _ \<Rightarrow> False)
              in if \<not> given \<and> (path = None \<or> path = Some [])
                 then (refs, Inl (NoPathVarSet (api_name self)))
                 else (case v of
                         JStr s \<Rightarrow> (refs, Inr (self\<lparr>produces := produces self @ [s]\<rparr>))
                       | JObj kvs \<Rightarrow>
                           (case as_str (map_of kvs ''name'') of
                              None \<Rightarrow> (refs, Inl OutsideModel)
                            | Some nm \<Rightarrow> (refs, Inr (self\<lparr>produces := produces self @ [nm]\<rparr>)))
                       | JArr xs \<Rightarrow> (refs, Inl OutsideModel)
                       | _ \<Rightarrow> (refs, Inl TypeError))))
      else if key = ''var_rename'' then
        (case v of
           JNull \<Rightarrow> (refs, Inl TypeError)
         | JObj kvs \<Rightarrow>
             (if map_of kvs ''from'' = None then (refs, Inl (MissingField ''var_rename'' ''from''))
              else if map_of kvs ''to'' = None then (refs, Inl (MissingField ''var_rename'' ''to''))
              else (case (as_str (map_of kvs ''from''), as_str (map_of kvs ''to'')) of
                      (Some f, Some t) \<Rightarrow>
                        (refs, Inr (self\<lparr>deletes := deletes self @ [f], produces := produces self @ [t]\<rparr>))
                    | _ \<Rightarrow> (refs, Inl OutsideModel)))
         | _ \<Rightarrow> (refs, Inl (MissingField ''var_rename'' ''from'')))
      else if key = ''var_delete'' then
        (case v of
           JStr s \<Rightarrow> (refs, Inr (self\<lparr>deletes := deletes self @ [s]\<rparr>))
         | _ \<Rightarrow> (refs, Inl OutsideModel))
      else (refs, Inr self))"

text \<open>
  \<^verbatim>\<open>Api.prototype.scanActions(toScan, path)\<close>: a false value and a value that is neither
  an array nor an object are not scanned; the elements of an array are scanned with
  the path extended by \<^verbatim>\<open>[]\<close> (no path, if the path is false); for every key of an
  object, in order, the \<^verbatim>\<open>switch\<close> is followed by the scan of \<^verbatim>\<open>toScan[key]\<close>. The
  switch leaves under its key the value it found, with a \<^verbatim>\<open>path\<close> string added or a
  string \<^verbatim>\<open>var_set\<close> wrapped, in which no more is found than before; only \<^verbatim>\<open>var_delete\<close>
  is replaced by an object that holds the value under \<^verbatim>\<open>name\<close>, so that the value is
  scanned one key deeper. An exception ends the scan.
\<close>

fun scanActions :: "api \<Rightarrow> string list \<Rightarrow> json \<Rightarrow> string option \<Rightarrow> string list \<times> (error + api)"
  and scanActions_list :: "api \<Rightarrow> string list \<Rightarrow> json list \<Rightarrow> string option
        \<Rightarrow> string list \<times> (error + api)"
  and scanActions_keys :: "api \<Rightarrow> string list \<Rightarrow> (string \<times> json) list \<Rightarrow> string option
        \<Rightarrow> string list \<times> (error + api)" where
  "scanActions self refs (JArr xs) path =
     scanActions_list self refs xs
       (case path of None \<Rightarrow> None | Some p \<Rightarrow> if p = [] then None else Some (p @ ''[]''))"
| "scanActions self refs (JObj kvs) path = scanActions_keys self refs kvs path"
| "scanActions self refs JNull path = (refs, Inr self)"
| "scanActions self refs (JBool b) path = (refs, Inr self)"
| "scanActions self refs (JNum n) path = (refs, Inr self)"
| "scanActions self refs (JStr s) path = (refs, Inr self)"
| "scanActions_list self refs [] path = (refs, Inr self)"
| "scanActions_list self refs (x # xs) path =
     (case scanActions self refs x path of
        (refs', Inl e) \<Rightarrow> (refs', Inl e)
      | (refs', Inr self') \<Rightarrow> scanActions_list self' refs' xs path)"
| "scanActions_keys self refs [] path = (refs, Inr self)"
| "scanActions_keys self refs ((key, v) # kvs) path =
     (case scanActions_case self refs key v path of
        (refs1, Inl e) \<Rightarrow> (refs1, Inl e)
      | (refs1, Inr self1) \<Rightarrow>
          (case scanActions self1 refs1 v
                  (if key = ''var_delete'' then next_path (next_path path key) ''name''
                   else next_path path key) of
             (refs2, Inl e) \<Rightarrow> (refs2, Inl e)
           | (refs2, Inr self2) \<Rightarrow> scanActions_keys self2 refs2 kvs path))"

text \<open>
  What the constructor \<^verbatim>\<open>Api(mapi, name, req, scode, test, requestBodyVars)\<close> is given:
  the name as lines 643-647 leave it, the request as lines 648-650 leave it, the fields
  of the response of the status code, the fields of the test object, its three hooks,
  the variables of the request body, and the variables of the descriptor that have a
  value. A field of the test object that holds a function is given as \<^verbatim>\<open>null\<close>: neither
  is scanned.
\<close>

record api_args =
  arg_aid :: nat
  arg_name :: string
  arg_request :: json
  arg_response :: "(string \<times> json) list"
  arg_test :: "(string \<times> json) list"
  arg_before :: hook_decl
  arg_afterApi :: hook_decl
  arg_afterAll :: hook_decl
  arg_requestBodyVars :: "string list option"
  arg_valued_vars :: "string list"

text \<open>\<^verbatim>\<open>uniq\<close> and \<^verbatim>\<open>union\<close> of lodash: the values in the order of their first occurrence.\<close>

definition uniq :: "'a list \<Rightarrow> 'a list" where
  "uniq xs = foldl (\<lambda>l x. if x \<in> set l then l else l @ [x]) [] xs"

text \<open>
  The constructor (lines 636-670): \<^verbatim>\<open>serial_vars\<close> starts as the field of the response,
  \<^verbatim>\<open>consumes\<close> as the variables of the request and those the test lists, \<^verbatim>\<open>produces\<close> as
  those the test lists; then the body of the response is scanned with the empty path,
  the test object without a path, and the three hooks are scanned. The result is
  \<^verbatim>\<open>hapi.referencedApis\<close> as the constructor leaves it, and the API or the exception.
\<close>

definition Api_new :: "api_args \<Rightarrow> string list \<Rightarrow> string list \<times> (error + api)" where
  "Api_new args refs =
     (case (opt_strs (map_of (arg_response args) ''serial_vars''),
            opt_strs (map_of (arg_test args) ''consumes''),
            opt_strs (map_of (arg_test args) ''produces'')) of
        (Some sv, Some cs, Some ps) \<Rightarrow>
          (let self = \<lparr>aid = arg_aid args, api_name = arg_name args,
                       consumes = uniq (getVarNames (Some (arg_request args))
                                        @ (case cs of None \<Rightarrow> [] | Some l \<Rightarrow> l)),
                       produces = uniq (case ps of None \<Rightarrow> [] | Some l \<Rightarrow> l),
                       deletes = [], var_new = None, serial_vars = sv,
                       requestBodyVars = arg_requestBodyVars args,
                       mapi_valued_vars = arg_valued_vars args\<rparr>
           in case (case map_of (arg_response args) ''body'' of
                      None \<Rightarrow> (refs, Inr self)
                    | Some body \<Rightarrow> scanActions self refs body (Some [])) of
                (refs1, Inl e) \<Rightarrow> (refs1, Inl e)
              | (refs1, Inr self1) \<Rightarrow>
                  (case scanActions self1 refs1 (JObj (arg_test args)) None of
                     (refs2, Inl e) \<Rightarrow> (refs2, Inl e)
                   | (refs2, Inr self2) \<Rightarrow>
                       (case scanHook refs2 (arg_before args) of
                          (refs3, Some e) \<Rightarrow> (refs3, Inl e)
                        | (refs3, None) \<Rightarrow>
                            (case scanHook refs3 (arg_afterApi args) of
                               (refs4, Some e) \<Rightarrow> (refs4, Inl e)
                             | (refs4, None) \<Rightarrow>
                                 (case scanHook refs4 (arg_afterAll args) of
                                    (refs5, Some e) \<Rightarrow> (refs5, Inl e)
                                  | (refs5, None) \<Rightarrow> (refs5, Inr self2))))))
      | _ \<Rightarrow> (refs, Inl OutsideModel))"

text \<open>
  The test object that \<^verbatim>\<open>getApis\<close> builds for a response without a \<^verbatim>\<open>tests\<close> list (lines
  582-599): the name, the request of the descriptor, the response itself, then the
  keys that lines 593-599 assign.
\<close>

definition getApis_default_test :: "string \<Rightarrow> json \<Rightarrow> (string \<times> json) list \<Rightarrow> json list
    \<Rightarrow> string list \<Rightarrow> string list \<Rightarrow> (string \<times> json) list" where
  "getApis_default_test name req res hooks cs ps =
     [(''name'', JStr name), (''request'', req), (''response'', JObj res)]
     @ zip [''onBeforeRun'', ''onAfterRun'', ''before'', ''afterApi'', ''afterAll''] hooks
     @ [(''consumes'', JArr (map JStr cs)), (''produces'', JArr (map JStr ps))]"

section \<open>RunContext.prototype.run: the variable combinations of a node (hapi.js 1101-1107)\<close>

text \<open>
  \<^verbatim>\<open>getVarCombinations(self.vars, self.api.consumes)\<close> is given the array of the Api
  object itself. The result is the combinations, or the error thrown when there are
  none, and the Api object as the call leaves it.
\<close>

definition run_getVarCombinations :: "vars \<Rightarrow> api \<Rightarrow> (error + vars list) \<times> api" where
  "run_getVarCombinations vs a =
     (let (varsArray, names') = getVarCombinations vs (consumes a)
      in (if varsArray = [] then Inl (NoVarCombinations (api_name a)) else Inr varsArray,
          a\<lparr>consumes := names'\<rparr>))"

section \<open>Serialization queues in RunContext.prototype.doRun (hapi.js 1243-1261, 1353-1369, 1393-1407)\<close>

text \<open>
  \<^verbatim>\<open>getSerialQueueName\<close>: \<^verbatim>\<open>null\<close> without \<^verbatim>\<open>serial_vars\<close>; otherwise \<^verbatim>\<open>name=value\<close> of
  each serial variable, joined by commas; a variable whose value is false throws. The
  value is read by \<^verbatim>\<open>self.vars[varName]\<close>; the textual form of a built-in function is
  its source as the engine prints it.
\<close>

definition builtin_source :: "string \<Rightarrow> string" where
  "builtin_source f = ''function '' @ (if f = ''constructor'' then ''Object'' else f) @ ''() { [native code] }''"

fun serialQueueName_loop :: "vars \<Rightarrow> string list \<Rightarrow> bool \<Rightarrow> string \<Rightarrow> error + string" where
  "serialQueueName_loop vs [] first queueName = Inr queueName"
| "serialQueueName_loop vs (varName # svars) first queueName =
     (case vars_get vs varName of
        JsUndefined \<Rightarrow> Inl (SerialVarNoValue varName)
      | JsValue varVal \<Rightarrow>
          if falsy varVal then Inl (SerialVarNoValue varName)
          else serialQueueName_loop vs svars False
                 (queueName @ (if first then [] else '','') @ varName @ ''='' @ js_toString varVal)
      | JsBuiltin f \<Rightarrow>
          serialQueueName_loop vs svars False
            (queueName @ (if first then [] else '','') @ varName @ ''='' @ builtin_source f)
      | JsObjectPrototype \<Rightarrow>
          serialQueueName_loop vs svars False
            (queueName @ (if first then [] else '','') @ varName @ ''=[object Object]''))"

definition getSerialQueueName :: "api option \<Rightarrow> vars \<Rightarrow> error + string option" where
  "getSerialQueueName a vs =
     (case a of
        None \<Rightarrow> Inr None
      | Some b \<Rightarrow>
          (case serial_vars b of
             None \<Rightarrow> Inr None
           | Some svars \<Rightarrow>
               (case serialQueueName_loop vs svars True [] of
                  Inl e \<Rightarrow> Inl e
                | Inr qn \<Rightarrow> Inr (Some qn))))"

text \<open>
  A RunContext is identified by a number. \<^verbatim>\<open>hapi.serialQueues\<close> maps a queue name to the
  contexts queued under it (each entry of the code pairs the context with its callback).

  The start of \<^verbatim>\<open>doRun(callback, proceed)\<close>, lines 1243-1261. The result is the queues,
  the local variable \<^verbatim>\<open>queue\<close> (the name of the queue it refers to, \<open>None\<close> when it stays
  \<^verbatim>\<open>undefined\<close>), and whether the call goes on to the waterfall (\<open>False\<close>: it returns and
  the context waits). An empty queue name is false, like \<^verbatim>\<open>null\<close>.
\<close>

definition doRun_enter :: "(string \<rightharpoonup> nat list) \<Rightarrow> nat \<Rightarrow> string option \<Rightarrow> bool
    \<Rightarrow> (string \<rightharpoonup> nat list) \<times> string option \<times> bool" where
  "doRun_enter serialQueues self queueName proceed =
     (case queueName of
        None \<Rightarrow> (serialQueues, None, True)
      | Some qn \<Rightarrow>
          if qn \<noteq> [] \<and> \<not> proceed then
            (let queue = (case serialQueues qn of None \<Rightarrow> [] | Some q \<Rightarrow> q) @ [self]
             in (serialQueues(qn \<mapsto> queue), Some qn, \<not> (length queue > 1)))
          else (serialQueues, None, True))"

text \<open>
  The last function of the waterfall, lines 1353-1369, for the value that the local
  variable \<^verbatim>\<open>queue\<close> has in this call: with a queue, shift it, check that the entry
  removed is this context, and resume the new head, if any, with
  \<^verbatim>\<open>doRun(ele.cb, true)\<close>. The result is the queues and the context resumed, or the
  error thrown. The variable holds the very array that is stored under the queue name
  (lines 1248-1250), which nothing replaces, so here the name stands for the array.
  \<^verbatim>\<open>shift\<close> of an empty array gives \<^verbatim>\<open>undefined\<close>, whose field \<^verbatim>\<open>ctx\<close> cannot be read.
\<close>

definition doRun_finish :: "(string \<rightharpoonup> nat list) \<Rightarrow> nat \<Rightarrow> string option
    \<Rightarrow> (string \<rightharpoonup> nat list) \<times> (error + nat option)" where
  "doRun_finish serialQueues self queue =
     (case queue of
        None \<Rightarrow> (serialQueues, Inr None)
      | Some qn \<Rightarrow>
          (case serialQueues qn of
             None \<Rightarrow> (serialQueues, Inl TypeError)
           | Some [] \<Rightarrow> (serialQueues, Inl TypeError)
           | Some (ele # rest) \<Rightarrow>
               if ele \<noteq> self then (serialQueues(qn \<mapsto> rest), Inl ProgramError)
               else (serialQueues(qn \<mapsto> rest),
                     Inr (case rest of [] \<Rightarrow> None | next # _ \<Rightarrow> Some next))))"

text \<open>
  The runs of the contexts interleave at callbacks only, so the state of the
  serialization is the queues together with the contexts that are inside their
  waterfall, each with the value of its local variable \<^verbatim>\<open>queue\<close>. Two events touch it:
  a context calls \<^verbatim>\<open>doRun(callback)\<close> with the queue name that
  \<^verbatim>\<open>getSerialQueueName\<close> gives it, and a context inside its waterfall reaches the last
  function. A resumed context enters \<^verbatim>\<open>doRun\<close> with \<^verbatim>\<open>proceed = true\<close>; its queue name
  is the name of the queue it waited in.
\<close>

record sched =
  serialQueues :: "string \<rightharpoonup> nat list"
  running :: "(nat \<times> string option) list"

datatype event = Call nat "string option" | Done nat

fun step :: "sched \<Rightarrow> event \<Rightarrow> sched" where
  "step s (Call c qn) =
     (let (qs, queue, go) = doRun_enter (serialQueues s) c qn False
      in \<lparr>serialQueues = qs, running = (if go then running s @ [(c, queue)] else running s)\<rparr>)"
| "step s (Done c) =
     (case map_of (running s) c of
        None \<Rightarrow> s
      | Some queue \<Rightarrow>
          (let rest = filter (\<lambda>(c', q). c' \<noteq> c) (running s) in
           case doRun_finish (serialQueues s) c queue of
             (qs, Inl e) \<Rightarrow> \<lparr>serialQueues = qs, running = rest\<rparr>
           | (qs, Inr None) \<Rightarrow> \<lparr>serialQueues = qs, running = rest\<rparr>
           | (qs, Inr (Some next)) \<Rightarrow>
               (let (qs', queue', go) = doRun_enter qs next queue True
                in \<lparr>serialQueues = qs', running = rest @ [(next, queue')]\<rparr>)))"

definition run_events :: "event list \<Rightarrow> sched" where
  "run_events evs = foldl step \<lparr>serialQueues = Map.empty, running = []\<rparr> evs"

section \<open>Well-formed stores and the nodes of the plan\<close>

text \<open>
  The nodes of the plan are the root and what is reachable from it through
  \<^verbatim>\<open>children\<close>. The \<^verbatim>\<open>preRun\<close> and \<^verbatim>\<open>postRun\<close> subtrees of a node hang off fields of their
  own: they are not children of the node, and \<^verbatim>\<open>insertApi\<close> never descends into them.
\<close>

inductive_set plan_nodes :: "node list \<Rightarrow> nat set" for st :: "node list" where
  root: "0 \<in> plan_nodes st"
| child: "p \<in> plan_nodes st \<Longrightarrow> c \<in> set (children (st ! p)) \<Longrightarrow> c \<in> plan_nodes st"

text \<open>What the API of a node produces; the root has no API.\<close>

definition api_produces :: "node list \<Rightarrow> nat \<Rightarrow> string set" where
  "api_produces st i = (case node_api (st ! i) of None \<Rightarrow> {} | Some b \<Rightarrow> set (produces b))"

text \<open>
  The part of a node that the shape of the tree depends on. The stores that the
  constructor and \<^verbatim>\<open>addChild\<close> build are well formed: the root is first and hosts no API,
  a parent has a smaller address than its child, and the children of a node are nodes
  of the store whose parent it is.
\<close>

definition skel :: "node \<Rightarrow> api option \<times> nat option \<times> nat list" where
  "skel nd = (node_api nd, parent nd, children nd)"

definition wf_store :: "node list \<Rightarrow> bool" where
  "wf_store st =
     (st \<noteq> [] \<and> node_api (st ! 0) = None \<and>
      (\<forall>i < length st.
         (\<forall>p. parent (st ! i) = Some p \<longrightarrow> p < i) \<and>
         (\<forall>c \<in> set (children (st ! i)). c < length st \<and> parent (st ! c) = Some i)))"

text \<open>
  A later store evolves from an earlier one when it keeps the nodes of the earlier one,
  with their APIs and parents, and only adds children.
\<close>

definition evolves :: "node list \<Rightarrow> node list \<Rightarrow> bool" where
  "evolves st st' =
     (length st \<le> length st' \<and>
      (\<forall>i < length st.
         node_api (st' ! i) = node_api (st ! i) \<and> parent (st' ! i) = parent (st ! i) \<and>
         set (children (st ! i)) \<subseteq> set (children (st' ! i))))"

text \<open>
  Dependency completeness of a store: every child of a node of the plan hosts an API
  for which \<^verbatim>\<open>getUndefinedVars\<close>, asked at that node, returns the empty array.
\<close>

definition dep_ok :: "hapi \<Rightarrow> node list \<Rightarrow> bool" where
  "dep_ok h st =
     (\<forall>p \<in> plan_nodes st. \<forall>c \<in> set (children (st ! p)). \<forall>a.
        node_api (st ! c) = Some a \<longrightarrow> getUndefinedVars h st p a = [])"

text \<open>
  Two relations between an earlier and a later store, used to follow \<^verbatim>\<open>addChild\<close>:
  \<open>keeps\<close>, when the later store is well formed and no node of the earlier one has
  changed its API, parent or children; \<open>child_step\<close>, when moreover at most the node
  \<open>n\<close> has a new child, which is then a new node without children that hosts the API.
\<close>

definition keeps :: "node list \<Rightarrow> node list \<Rightarrow> bool" where
  "keeps st st' =
     (wf_store st' \<and> length st \<le> length st' \<and> (\<forall>i < length st. skel (st' ! i) = skel (st ! i)))"


section \<open>A small corpus: the producer seeding scenario\<close>

text \<open>
  Scenario 4 of the specification: \<^verbatim>\<open>useX\<close> consumes \<^verbatim>\<open>x\<close>, \<^verbatim>\<open>makeX\<close> is the only producer of
  \<^verbatim>\<open>x\<close>, and only \<^verbatim>\<open>useX\<close> is asked for. The theorems about the planner are instantiated
  on it.
\<close>

definition useX :: api where
  "useX = \<lparr>aid = 0, api_name = ''vh/useX-200'', consumes = [''x''], produces = [], deletes = [],
            var_new = None, serial_vars = None, requestBodyVars = Some [], mapi_valued_vars = []\<rparr>"

definition makeX :: api where
  "makeX = \<lparr>aid = 1, api_name = ''vh/makeX-200'', consumes = [], produces = [''x''], deletes = [],
             var_new = None, serial_vars = None, requestBodyVars = Some [], mapi_valued_vars = []\<rparr>"




definition root_store :: "node list" where
  "root_store = fst (Node_new [] None None)"

text \<open>
  A larger seeding scenario: the root already has a child, which hosts \<^verbatim>\<open>otherY\<close> and
  produces \<^verbatim>\<open>y\<close>; \<^verbatim>\<open>x\<close> has two producers, \<^verbatim>\<open>makeX\<close> and \<^verbatim>\<open>makeX2\<close>.
\<close>

definition otherY :: api where
  "otherY = \<lparr>aid = 5, api_name = ''vh/otherY-200'', consumes = [], produces = [''y''], deletes = [],
              var_new = None, serial_vars = None, requestBodyVars = Some [], mapi_valued_vars = []\<rparr>"

definition makeX2 :: api where
  "makeX2 = \<lparr>aid = 6, api_name = ''vh/makeX2-200'', consumes = [], produces = [''x''], deletes = [],
              var_new = None, serial_vars = None, requestBodyVars = Some [], mapi_valued_vars = []\<rparr>"

definition seeding2_hapi :: hapi where
  "seeding2_hapi = \<lparr>apis = [otherY, useX, makeX, makeX2], referencedApis = [], hapi_var_names = []\<rparr>"

definition other_store :: "node list" where
  "other_store = fst (insertApi 3 seeding2_hapi root_store 0 otherY)"

text \<open>
  Scenario 3 of the specification, a constructor with cleanup: \<^verbatim>\<open>createApp\<close> has a
  \<^verbatim>\<open>var_new\<close> whose getter is \<^verbatim>\<open>getApp\<close> and whose destructor is \<^verbatim>\<open>delApp\<close>, so both names
  are referenced. Here the getter lists the applications of an organization: it
  consumes \<^verbatim>\<open>orgGuid\<close>, which nothing produces or predefines.
\<close>

definition createApp :: api where
  "createApp = \<lparr>aid = 2, api_name = ''vh/createApp-201'', consumes = [], produces = [''appGuid''],
                 deletes = [],
                 var_new = Some \<lparr>vn_name = ''appGuid'', vn_path = Some ''guid'',
                                  vn_get = ''vh/getApp-200'', vn_delete = ''vh/delApp-204'',
                                  vn_serial_vars = None\<rparr>,
                 serial_vars = Some [], requestBodyVars = Some [], mapi_valued_vars = []\<rparr>"

definition getApp :: api where
  "getApp = \<lparr>aid = 3, api_name = ''vh/getApp-200'', consumes = [''orgGuid''],
              produces = [''appGuid''], deletes = [], var_new = None, serial_vars = None,
              requestBodyVars = Some [], mapi_valued_vars = []\<rparr>"

definition delApp :: api where
  "delApp = \<lparr>aid = 4, api_name = ''vh/delApp-204'', consumes = [''appGuid''], produces = [],
              deletes = [''appGuid''], var_new = None, serial_vars = None,
              requestBodyVars = Some [], mapi_valued_vars = []\<rparr>"

definition cleanup_mapis :: "mapi list" where
  "cleanup_mapis = [\<lparr>groups = [''vh/createApp''], mapi_apis = [createApp]\<rparr>,
                    \<lparr>groups = [''vh/getApp''], mapi_apis = [getApp]\<rparr>,
                    \<lparr>groups = [''vh/delApp''], mapi_apis = [delApp]\<rparr>]"

definition cleanup_hapi :: hapi where
  "cleanup_hapi = \<lparr>apis = [], referencedApis = [''vh/getApp-200'', ''vh/delApp-204''],
                    hapi_var_names = []\<rparr>"

chapter \<open>Properties\<close>

section \<open>Insertable APIs and the registration of referenced APIs\<close>

lemma isInsertableApi_iff: "isInsertableApi refs nm \<longleftrightarrow> (\<forall>r \<in> set refs. \<not> prefix r nm)"
  by (induction refs) auto

lemma addUniq_set: "set (addUniq xs v) = insert v (set xs)"
  by (auto simp: addUniq_def)

lemma scanHook_set:
  "set (fst (scanHook refs h)) \<subseteq> set refs \<union> hook_strings h \<and>
   (snd (scanHook refs h) = None \<longrightarrow> set (fst (scanHook refs h)) = set refs \<union> hook_strings h)"
  "set (fst (scanHook_list refs hs)) \<subseteq> set refs \<union> hook_strings_list hs \<and>
   (snd (scanHook_list refs hs) = None \<longrightarrow>
      set (fst (scanHook_list refs hs)) = set refs \<union> hook_strings_list hs)"
proof (induction refs h and refs hs rule: scanHook_scanHook_list.induct)
  case (8 refs h hs)
  show ?case
  proof (cases "scanHook refs h")
    case (Pair refs' r)
    show ?thesis
    proof (cases r)
      case None
      with Pair 8 show ?thesis by auto
    next
      case (Some e)
      with Pair 8 show ?thesis by auto
    qed
  qed
qed (auto simp: addUniq_set)

lemma scanActions_var_new_refs:
  "scanActions_var_new self refs vn path = (refs', Inr api') \<Longrightarrow>
     \<exists>g d. raw_get vn = Some g \<and> raw_delete vn = Some d \<and> set refs' = set refs \<union> {g, d}"
  by (auto simp: scanActions_var_new_def addUniq_set Let_def split: option.splits if_splits)

text \<open>
  Claim C5, as the specification states it: an API is insertable if and only if its name
  is not a prefix of any referenced API name. The code tests the converse relation,
  \<^verbatim>\<open>name.startsWith(refs[i])\<close>: with the reference \<^verbatim>\<open>vh/getApp\<close> registered, the API
  \<^verbatim>\<open>vh/getApp-200\<close> is not insertable although its name is a prefix of no referenced
  name, and the API \<^verbatim>\<open>vh/get\<close> is insertable although its name is a prefix of the
  referenced name.
\<close>

theorem isInsertableApi_name_prefix_counterexample:
  "\<not> (isInsertableApi [''vh/getApp''] ''vh/getApp-200''
        \<longleftrightarrow> (\<forall>r \<in> set [''vh/getApp'']. \<not> prefix ''vh/getApp-200'' r)) \<and>
   \<not> (isInsertableApi [''vh/getApp''] ''vh/get''
        \<longleftrightarrow> (\<forall>r \<in> set [''vh/getApp'']. \<not> prefix ''vh/get'' r))"
  by simp

text \<open>
  Claim C5, amended: an API is insertable if and only if no referenced API name is a
  prefix of its name. The referenced names are registered by \<^verbatim>\<open>scanHook\<close>, which, when
  it does not throw, adds exactly the strings of the hook, and by the \<^verbatim>\<open>var_new\<close> case of
  \<^verbatim>\<open>scanActions\<close>, which, when it does not throw, adds exactly the \<^verbatim>\<open>get\<close> and \<^verbatim>\<open>delete\<close>
  names of the action.
\<close>

theorem isInsertableApi_no_reference_is_prefix:
  "(isInsertableApi refs nm \<longleftrightarrow> (\<forall>r \<in> set refs. \<not> prefix r nm)) \<and>
   (snd (scanHook refs h) = None \<longrightarrow> set (fst (scanHook refs h)) = set refs \<union> hook_strings h) \<and>
   (scanActions_var_new self refs vn path = (refs', Inr api') \<longrightarrow>
      (\<exists>g d. raw_get vn = Some g \<and> raw_delete vn = Some d \<and> set refs' = set refs \<union> {g, d}))"
proof (intro conjI impI)
  show "isInsertableApi refs nm \<longleftrightarrow> (\<forall>r \<in> set refs. \<not> prefix r nm)"
    by (rule isInsertableApi_iff)
next
  assume "snd (scanHook refs h) = None"
  with scanHook_set(1) [of refs h]
  show "set (fst (scanHook refs h)) = set refs \<union> hook_strings h"
    by simp
next
  assume "scanActions_var_new self refs vn path = (refs', Inr api')"
  then show "\<exists>g d. raw_get vn = Some g \<and> raw_delete vn = Some d \<and> set refs' = set refs \<union> {g, d}"
    by (rule scanActions_var_new_refs)
qed

theorem isInsertableApi_no_reference_is_prefix_witness:
  "\<not> isInsertableApi [''vh/getApp'', ''vh/delApp''] ''vh/getApp-200'' \<and>
   isInsertableApi [''vh/getApp'', ''vh/delApp''] ''vh/listApps-200'' \<and>
   set (fst (scanHook [''vh/getApp''] (HookArray [HookFunction, HookObject (HookString ''vh/login'')])))
     = {''vh/getApp'', ''vh/login''}"
proof -
  have a: "\<not> isInsertableApi [''vh/getApp'', ''vh/delApp''] ''vh/getApp-200''"
    using isInsertableApi_no_reference_is_prefix
            [of "[''vh/getApp'', ''vh/delApp'']" "''vh/getApp-200''"]
    by simp
  have b: "isInsertableApi [''vh/getApp'', ''vh/delApp''] ''vh/listApps-200''"
    using isInsertableApi_no_reference_is_prefix
            [of "[''vh/getApp'', ''vh/delApp'']" "''vh/listApps-200''"]
    by simp
  have c: "set (fst (scanHook [''vh/getApp'']
                  (HookArray [HookFunction, HookObject (HookString ''vh/login'')])))
             = {''vh/getApp'', ''vh/login''}"
    using isInsertableApi_no_reference_is_prefix
            [of "[''vh/getApp'']" "[]" "HookArray [HookFunction, HookObject (HookString ''vh/login'')]"]
    by (simp add: addUniq_def)
  from a b c show ?thesis by (intro conjI)
qed

section \<open>The exit code of gendoc\<close>

lemma vhost_mapis_loop_grows: "length errs \<le> length (vhost_mapis_loop ms st errs)"
proof (induction ms arbitrary: st errs)
  case Nil
  show ?case by simp
next
  case (Cons m ms)
  show ?case
  proof (cases "md_private m")
    case True
    with Cons show ?thesis by simp
  next
    case False
    obtain st' r where a: "addDoc m st = (st', r)" by (cases "addDoc m st")
    show ?thesis
    proof (cases r)
      case None
      with a False Cons [of errs st'] show ?thesis by simp
    next
      case (Some e)
      with a False Cons [of "errs @ [''Failure in '' @ md_name m @ '': Error: '' @ e]" st']
      show ?thesis by simp
    qed
  qed
qed

lemma gendoc_loop_result:
  "gendoc_loop writable outDir vs errs result = (errs', result') \<Longrightarrow>
     length errs \<le> length errs' \<and> (result' = result \<or> (result' = 2 \<and> errs' \<noteq> []))"
proof (induction vs arbitrary: errs result)
  case Nil
  then show ?case by simp
next
  case (Cons v vs)
  show ?case
  proof (cases "VirtualHost_gendoc v errs")
    case (Inl err)
    with Cons.prems
    have "gendoc_loop writable outDir vs
            (errs @ [''failure generating '' @ vh_name v
                     @ '' virtual host documentation: Error: '' @ err]) 2
          = (errs', result')" by simp
    from Cons.IH [OF this] show ?thesis by auto
  next
    case (Inr errs1)
    then have le: "length errs \<le> length errs1"
      using vhost_mapis_loop_grows [of errs "vh_mapis v" "[]"]
      by (auto simp: VirtualHost_gendoc_def split: if_splits)
    show ?thesis
    proof (cases "writable (outDir @ ''/swagger-'' @ vh_name v @ ''.json'')")
      case True
      with Inr Cons.prems have "gendoc_loop writable outDir vs errs1 result = (errs', result')"
        by simp
      from Cons.IH [OF this] le show ?thesis by auto
    next
      case False
      with Inr Cons.prems
      have "gendoc_loop writable outDir vs
              (errs1 @ [''failure generating '' @ vh_name v
                        @ '' virtual host documentation: Error: write failed'']) 2
            = (errs', result')" by simp
      from Cons.IH [OF this] le show ?thesis by auto
    qed
  qed
qed

lemma gendoc_code:
  "fst (gendoc writable outDir vs errors0)
     = (if snd (gendoc writable outDir vs errors0) = [] then 0 else 3)"
proof (cases "gendoc_loop writable outDir vs errors0 0")
  case (Pair errs result)
  from gendoc_loop_result [OF Pair] Pair show ?thesis
    by (auto simp: gendoc_def)
qed

text \<open>
  Claim C9: gendoc returns 0 when no errors occurred and 2 when documentation
  generation fails for some virtual host. The code sets \<^verbatim>\<open>result = 2\<close> in the
  \<^verbatim>\<open>catch\<close>, but the same \<^verbatim>\<open>catch\<close> pushes an error, and after the loop a non-empty
  error list overwrites the result with 3. So the exit code is 0 when the error list
  ends empty and 3 otherwise, never 2; for a single virtual host without swagger
  information, whose generation fails, the code returns 3.
\<close>

theorem gendoc_failure_returns_3_not_2:
  "fst (gendoc writable outDir vs errors0)
     = (if snd (gendoc writable outDir vs errors0) = [] then 0 else 3) \<and>
   fst (gendoc writable outDir vs errors0) \<noteq> 2 \<and>
   gendoc (\<lambda>f. True) ''out'' [\<lparr>vh_name = ''svc'', vh_swagger = False, vh_mapis = []\<rparr>] []
     = (3, [''failure generating svc virtual host documentation: ''
            @ ''Error: no swagger info found for virtual host svc''])"
proof (intro conjI)
  show "fst (gendoc writable outDir vs errors0)
     = (if snd (gendoc writable outDir vs errors0) = [] then 0 else 3)"
    by (rule gendoc_code)
  show "fst (gendoc writable outDir vs errors0) \<noteq> 2"
    by (simp add: gendoc_code)
  show "gendoc (\<lambda>f. True) ''out'' [\<lparr>vh_name = ''svc'', vh_swagger = False, vh_mapis = []\<rparr>] []
     = (3, [''failure generating svc virtual host documentation: ''
            @ ''Error: no swagger info found for virtual host svc''])"
    by (simp add: gendoc_def VirtualHost_gendoc_def)
qed

section \<open>The quit list of a hook that names an API\<close>

text \<open>
  Claim C4: when the run of the API named by a string hook fails, the rest of the chain
  is silently terminated if and only if the status code received is listed in the
  hook's quit list; otherwise the chain fails with the error. The code tests
  \<^verbatim>\<open>if (hook.quit.indexOf(runCtx.statusCode))\<close>, which is true unless the index is 0:
  the chain is terminated silently unless the status code is the first entry of the
  quit list. With quit list \<^verbatim>\<open>[404]\<close>, a failure with status 404 (listed) fails the
  chain, and a failure with status 500 (not listed) ends it silently; in both cases
  the second hook does not run.
\<close>

theorem hook_quit_listed_code_fails_chain:
  "runHook2_single ctx \<lparr>hook = ApiHook (Some e) statusCode, quit = Some q\<rparr>
     = (if quit_indexOf q statusCode \<noteq> 0 then (ctx\<lparr>break := True\<rparr>, None) else (ctx, Some e)) \<and>
   runHook [\<lparr>hook = ApiHook (Some e) (Some 404), quit = Some [404]\<rparr>,
            \<lparr>hook = UserFn False None, quit = None\<rparr>] = ([0], Some e) \<and>
   runHook [\<lparr>hook = ApiHook (Some e) (Some 500), quit = Some [404]\<rparr>,
            \<lparr>hook = UserFn False None, quit = None\<rparr>] = ([0], None)"
  by (simp add: runHook_def runHook2_single_def default_quit_def quit_indexOf_def indexOf_def
        truthy_number_def)

section \<open>The effect of a run on the Api object\<close>

lemma getVarCombinationsRecurse_names:
  "snd (getVarCombinationsRecurse varsArray names) = drop 1 (dropWhile (\<lambda>n. n \<noteq> []) names)"
  by (induction names arbitrary: varsArray) auto

lemma run_consumes:
  "consumes (snd (run_getVarCombinations vs a)) = drop 1 (dropWhile (\<lambda>n. n \<noteq> []) (consumes a))"
  using getVarCombinationsRecurse_names [of "[vs]" "consumes a"]
  by (cases "getVarCombinationsRecurse [vs] (consumes a)")
     (simp add: run_getVarCombinations_def getVarCombinations_def)

lemma dropWhile_nonempty_all: "[] \<notin> set names \<Longrightarrow> dropWhile (\<lambda>n. n \<noteq> []) names = []"
  by (induction names) auto

text \<open>
  Claim C10, as stated: after the first execution of a node the \<^verbatim>\<open>consumes\<close> array of
  the shared Api object is empty. The recursion stops at the first name that is false,
  so an API that consumes the empty name (a request with a lone dollar sign) and then
  \<^verbatim>\<open>x\<close> is left with \<^verbatim>\<open>x\<close>.
\<close>

theorem run_consumes_empty_counterexample:
  "consumes (snd (run_getVarCombinations Map.empty
      \<lparr>aid = 0, api_name = ''vh/pay-200'', consumes = ['''', ''x''], produces = [], deletes = [],
       var_new = None, serial_vars = None, requestBodyVars = Some [], mapi_valued_vars = []\<rparr>))
   \<noteq> []"
  by (simp add: run_getVarCombinations_def getVarCombinations_def)

text \<open>
  Claim C10, amended: a run is given the \<^verbatim>\<open>consumes\<close> array of the Api object itself,
  and \<^verbatim>\<open>shift\<close> removes its names up to and including the first empty name. When no
  consumed name is empty, the array is empty after the first run of the API, and any
  later run of the same API computes its combinations over an empty list of names: it
  gets the one environment it was given, whatever arrays that holds.
\<close>

theorem run_empties_consumes:
  "consumes (snd (run_getVarCombinations vs a)) = drop 1 (dropWhile (\<lambda>n. n \<noteq> []) (consumes a)) \<and>
   ([] \<notin> set (consumes a) \<longrightarrow>
      consumes (snd (run_getVarCombinations vs a)) = [] \<and>
      fst (run_getVarCombinations vs' (snd (run_getVarCombinations vs a))) = Inr [vs'])"
proof (intro conjI impI)
  show c: "consumes (snd (run_getVarCombinations vs a))
             = drop 1 (dropWhile (\<lambda>n. n \<noteq> []) (consumes a))"
    by (rule run_consumes)
  assume "[] \<notin> set (consumes a)"
  with c show e: "consumes (snd (run_getVarCombinations vs a)) = []"
    by (simp add: dropWhile_nonempty_all)
  then show "fst (run_getVarCombinations vs' (snd (run_getVarCombinations vs a))) = Inr [vs']"
    by (simp add: run_getVarCombinations_def [of vs'] getVarCombinations_def)
qed

theorem run_empties_consumes_witness:
  "consumes (snd (run_getVarCombinations [''grantType'' \<mapsto> JArr [JStr ''password'', JStr ''client'']]
      \<lparr>aid = 0, api_name = ''vh/token-200'', consumes = [''grantType'', ''authHdr''], produces = [],
       deletes = [], var_new = None, serial_vars = None, requestBodyVars = Some [],
       mapi_valued_vars = []\<rparr>)) = []"
  using run_empties_consumes
    [of "[''grantType'' \<mapsto> JArr [JStr ''password'', JStr ''client'']]"
        "\<lparr>aid = 0, api_name = ''vh/token-200'', consumes = [''grantType'', ''authHdr''], produces = [],
          deletes = [], var_new = None, serial_vars = None, requestBodyVars = Some [],
          mapi_valued_vars = []\<rparr>"]
  by simp

section \<open>The default serial_vars of a constructor\<close>








lemma var_new_in_body_is_scanned_twice:
  "Api_new
     \<lparr>arg_aid = 0, arg_name = ''vh/createApp-201'',
      arg_request = JObj [(''method'', JStr ''POST''), (''url'', JStr ''$vh/apps'')],
      arg_response =
        [(''body'', JObj [(''guid'', JObj [(''var_new'',
            JObj [(''name'', JStr ''appGuid''), (''get'', JStr ''vh/getApp-200''),
                  (''delete'', JStr ''vh/delApp-204'')])])])],
      arg_test = getApis_default_test ''vh/createApp-201''
                   (JObj [(''method'', JStr ''POST''), (''path'', JStr ''/apps'')])
                   [(''body'', JObj [(''guid'', JObj [(''var_new'',
                       JObj [(''name'', JStr ''appGuid''), (''get'', JStr ''vh/getApp-200''),
                             (''delete'', JStr ''vh/delApp-204'')])])])]
                   [JNull, JNull, JNull, JNull, JNull] [] [],
      arg_before = HookNone, arg_afterApi = HookNone, arg_afterAll = HookNone,
      arg_requestBodyVars = getApis_requestBodyVars None,
      arg_valued_vars = []\<rparr> []
   = ([''vh/getApp-200'', ''vh/delApp-204''], Inl (MultipleVarNew ''vh/createApp-201''))"
  by code_simp


section \<open>Serialization queues\<close>

text \<open>
  Claim C2: a context with a queue key appends itself to the queue of the key, proceeds
  at once if and only if it is alone there, and on completion pops itself and resumes
  the head. A context resumed by \<^verbatim>\<open>doRun(ele.cb, true)\<close> never assigns its local variable
  \<^verbatim>\<open>queue\<close>, so on completion it neither pops itself nor resumes anyone. Three contexts
  with the key \<^verbatim>\<open>appName=a\<close>: 1 runs and 2 waits; 1 completes and resumes 2; 2 completes
  and stays at the head of the queue; 3 arrives, finds the queue non-empty and waits,
  although no context is running.
\<close>

theorem resumed_context_never_leaves_queue:
  "run_events [Call 1 (Some ''appName=a''), Call 2 (Some ''appName=a''), Done 1]
     = \<lparr>serialQueues = [''appName=a'' \<mapsto> [2]], running = [(2, None)]\<rparr> \<and>
   run_events [Call 1 (Some ''appName=a''), Call 2 (Some ''appName=a''), Done 1, Done 2]
     = \<lparr>serialQueues = [''appName=a'' \<mapsto> [2]], running = []\<rparr> \<and>
   run_events [Call 1 (Some ''appName=a''), Call 2 (Some ''appName=a''), Done 1, Done 2,
               Call 3 (Some ''appName=a'')]
     = \<lparr>serialQueues = [''appName=a'' \<mapsto> [2, 3]], running = []\<rparr>"
  by (simp add: run_events_def doRun_enter_def doRun_finish_def)

section \<open>The gates of the execution waterfall\<close>

lemmas wf_defs = doRun_waterfall_def stage_preRun_def stage_onBeforeRun_def stage_before_def
    stage_main_def stage_afterApi_def stage_children_def stage_afterAll_def
    stage_onAfterRun_def stage_postRun_def advance_def remember_def succeeded_def first_error_def
    failed_def closure_of_def




text \<open>
  Claim C3, as stated: \<^verbatim>\<open>onAfterRun\<close> runs if and only if \<^verbatim>\<open>onBeforeRun\<close> succeeded, and
  \<^verbatim>\<open>postRun\<close> runs if and only if the \<^verbatim>\<open>before\<close> stage succeeded. A stage that does not
  call its callback ends the waterfall: when the \<^verbatim>\<open>before\<close> hook is a string that names
  no API, \<^verbatim>\<open>runHook2\<close> throws (line 1204) after \<^verbatim>\<open>onBeforeRun\<close> has succeeded, and neither
  \<^verbatim>\<open>onAfterRun\<close> nor any other later stage runs, nor is the caller given an error. And
  when every stage succeeds on a node without a \<^verbatim>\<open>postRun\<close> subtree, the \<^verbatim>\<open>before\<close> stage
  has succeeded and no \<^verbatim>\<open>postRun\<close> runs.
\<close>

theorem waterfall_abandoned_counterexample:
  "doRun_waterfall False True (\<lambda>s. if s = Before then Abandons else Calls None :: string outcome)
     = Inl \<lparr>state = 2, cbErr = None, ran = [OnBeforeRun, Before]\<rparr> \<and>
   succeeded (\<lambda>s. if s = Before then Abandons else Calls None :: string outcome)
     (closure_of (doRun_waterfall False True (\<lambda>s. if s = Before then Abandons else Calls None)))
     OnBeforeRun \<and>
   OnAfterRun \<notin> set (ran (closure_of
     (doRun_waterfall False True (\<lambda>s. if s = Before then Abandons else Calls None :: string outcome)))) \<and>
   doRun_waterfall False False (\<lambda>s. Calls None :: string outcome)
     = Inr \<lparr>state = 6, cbErr = None,
            ran = [OnBeforeRun, Before, Main, AfterApi, Children, AfterAll, OnAfterRun]\<rparr>"
  by (simp add: wf_defs)



section \<open>Variable substitution reaches a fixed point\<close>








text \<open>
  Claim C7, as stated: substituting a \<^verbatim>\<open>$name\<close> or \<^verbatim>\<open>${name}\<close> reference whose variable is
  undefined in the environment throws an error. The resolver reads \<^verbatim>\<open>vars[varName]\<close>, and
  the environment inherits the members of \<^verbatim>\<open>Object.prototype\<close>: in the empty environment
  \<^verbatim>\<open>$toString\<close> is a reference to no variable, and \<^verbatim>\<open>resolve\<close> throws nothing and returns
  \<^verbatim>\<open>[object Undefined]\<close>.
\<close>

theorem resolve_inherited_name_counterexample:
  "''toString'' \<in> set (var_refs (JStr ''$toString'')) \<and>
   (Map.empty :: vars) ''toString'' = None \<and>
   resolve (JStr ''$toString'') (Some Map.empty) = Inr (JStr ''[object Undefined]'')"
proof (intro conjI)
  show "''toString'' \<in> set (var_refs (JStr ''$toString''))"
    by (simp add: word_char_def normalizeVar_def)
  show "(Map.empty :: vars) ''toString'' = None"
    by simp
  show "resolve (JStr ''$toString'') (Some Map.empty) = Inr (JStr ''[object Undefined]'')"
    by code_simp
qed








section \<open>The planner keeps every node of the plan dependency complete\<close>

subsection \<open>Sets of the array helpers\<close>




subsection \<open>The chain of a node\<close>





subsection \<open>Evolution and the nodes of the plan\<close>





subsection \<open>The skeleton of a store\<close>

lemma skel_update [simp]:
  "skel (nd\<lparr>node_produces := x\<rparr>) = skel nd"
  "skel (nd\<lparr>subTreeProduces := y\<rparr>) = skel nd"
  "skel (nd\<lparr>preRun := z\<rparr>) = skel nd"
  "skel (nd\<lparr>postRun := z\<rparr>) = skel nd"
  "skel (nd\<lparr>inserting := w\<rparr>) = skel nd"
  by (simp_all add: skel_def)

lemma map_skel_upd: "skel x = skel (st ! j) \<Longrightarrow> map skel (st[j := x]) = map skel st"
proof (cases "j < length st")
  case True
  assume "skel x = skel (st ! j)"
  with True show ?thesis by (simp add: map_update list_update_same_conv)
next
  case False
  then show ?thesis by (simp add: list_update_beyond)
qed






subsection \<open>The skeleton after the operations on the store\<close>

lemma set_inserting_skel [simp]: "map skel (set_inserting st n nm flag) = map skel st"
  by (simp add: set_inserting_def map_skel_upd)

lemma addProduces_walk_skel [simp]: "map skel (addProduces_walk st js vs) = map skel st"
  by (induction js arbitrary: st vs) (simp_all add: Let_def map_skel_upd)




lemma skel_eq_iff:
  "skel x = skel y \<longleftrightarrow> node_api x = node_api y \<and> parent x = parent y \<and> children x = children y"
  "skel x = (a, p, cs) \<longleftrightarrow> node_api x = a \<and> parent x = p \<and> children x = cs"
  by (auto simp: skel_def)



subsection \<open>Stores that keep their nodes\<close>




lemma keeps_evolves: "keeps st st' \<Longrightarrow> evolves st st'"
  by (simp add: keeps_def evolves_def skel_eq_iff)




subsection \<open>addChild adds at most one child, a new node, to the node it is called on\<close>



subsection \<open>Dependency completeness is kept by addChild and by insertApi\<close>







subsection \<open>compile\<close>



lemma getUndefinedVars_apis [simp]:
  "getUndefinedVars (h\<lparr>apis := x\<rparr>) st n a = getUndefinedVars h st n a"
  by (simp add: getUndefinedVars_def getPredefinedVars_def)

lemma dep_ok_apis [simp]: "dep_ok (h\<lparr>apis := x\<rparr>) st = dep_ok h st"
  by (simp add: dep_ok_def)



text \<open>
  Claim C1, as stated: every node of a tree produced by a successful compile consumes
  only variables that its API or the APIs of its ancestors produce or that are
  predefined. \<^verbatim>\<open>addChild\<close> builds the \<^verbatim>\<open>preRun\<close> and \<^verbatim>\<open>postRun\<close> nodes of a constructor (lines
  1003-1010) with a parent and without asking \<^verbatim>\<open>getUndefinedVars\<close>. The corpus of
  \<^verbatim>\<open>createApp\<close> compiles without an error; the \<^verbatim>\<open>preRun\<close> node of the node of \<^verbatim>\<open>createApp\<close>
  is node 2 and hosts \<^verbatim>\<open>getApp\<close>, which consumes \<^verbatim>\<open>orgGuid\<close>; neither \<^verbatim>\<open>getApp\<close> nor the API
  of an ancestor of node 2 produces \<^verbatim>\<open>orgGuid\<close>, nor is it predefined.
\<close>

theorem compile_satellite_counterexample:
  "snd (compile 10 cleanup_hapi cleanup_mapis None) = [] \<and>
   node_api (fst (compile 10 cleanup_hapi cleanup_mapis None) ! 2) = Some getApp \<and>
   parent (fst (compile 10 cleanup_hapi cleanup_mapis None) ! 2) = Some 1 \<and>
   preRun (fst (compile 10 cleanup_hapi cleanup_mapis None) ! 1) = Some 2 \<and>
   chain (fst (compile 10 cleanup_hapi cleanup_mapis None)) 2 = [2, 1, 0] \<and>
   ''orgGuid'' \<in> set (consumes getApp) \<and>
   ''orgGuid'' \<notin> api_produces (fst (compile 10 cleanup_hapi cleanup_mapis None)) 2
                 \<union> api_produces (fst (compile 10 cleanup_hapi cleanup_mapis None)) 1
                 \<union> api_produces (fst (compile 10 cleanup_hapi cleanup_mapis None)) 0
                 \<union> set (getPredefinedVars cleanup_hapi getApp) \<and>
   getUndefinedVars cleanup_hapi (fst (compile 10 cleanup_hapi cleanup_mapis None)) 1 getApp
     = [''orgGuid'']"
proof -
  define S where "S = fst (compile 10 cleanup_hapi cleanup_mapis None)"
  have 1: "snd (compile 10 cleanup_hapi cleanup_mapis None) = []"
    by code_simp
  have 2: "node_api (S ! 2) = Some getApp" "parent (S ! 2) = Some 1" "preRun (S ! 1) = Some 2"
    unfolding S_def by code_simp+
  have 3: "chain S 2 = [2, 1, 0]"
    unfolding S_def by code_simp
  have 4: "api_produces S 2 = {''appGuid''}" "api_produces S 1 = {''appGuid''}" "api_produces S 0 = {}"
    unfolding S_def by code_simp+
  have 5: "getUndefinedVars cleanup_hapi S 1 getApp = [''orgGuid'']"
    unfolding S_def by code_simp
  have 6: "''orgGuid'' \<in> set (consumes getApp)" "getPredefinedVars cleanup_hapi getApp = []"
    by (simp_all add: getApp_def getPredefinedVars_def cleanup_hapi_def)
  from 1 2 3 4 5 6 show ?thesis
    unfolding S_def by simp
qed




subsection \<open>Seeding the producers of the first undefined variable\<close>




lemma addUniq_distinct: "distinct xs \<Longrightarrow> distinct (addUniq xs v)"
  by (simp add: addUniq_def)






end
